theory Spec2Isabelle
  imports Complex_Main "HOL-Library.Sublist" "HOL-Library.AList"
begin

section \<open>Python values\<close>

text \<open>
  The mappers and the test helpers work on the values that \<^verbatim>\<open>json.load\<close> produces:
  \<^verbatim>\<open>None\<close>, \<^verbatim>\<open>bool\<close>, \<^verbatim>\<open>int\<close>, \<^verbatim>\<open>float\<close>, \<^verbatim>\<open>str\<close>, \<^verbatim>\<open>list\<close> and \<^verbatim>\<open>dict\<close> with string keys.
  A \<^verbatim>\<open>dict\<close> is the list of its items in insertion order; a lookup takes the first
  entry of a key (\<open>map_of\<close>). A \<^verbatim>\<open>float\<close> is represented by its numerical value, which
  covers the finite numbers a JSON document (RFC 8259) can denote; \<^verbatim>\<open>==\<close> on such floats
  is equality of values. A \<^verbatim>\<open>str\<close> is the list of its UTF-8 bytes.
\<close>

datatype pyval =
    PNone
  | PBool bool
  | PInt int
  | PFloat rat
  | PStr string
  | PList "pyval list"
  | PDict "(string \<times> pyval) list"

datatype pytype = TNone | TBool | TInt | TFloat | TStr | TList | TDict

fun py_type :: "pyval \<Rightarrow> pytype" where
  "py_type PNone = TNone"
| "py_type (PBool b) = TBool"
| "py_type (PInt i) = TInt"
| "py_type (PFloat f) = TFloat"
| "py_type (PStr s) = TStr"
| "py_type (PList xs) = TList"
| "py_type (PDict kvs) = TDict"

text \<open>\<^verbatim>\<open>type(x).__name__\<close>\<close>

fun type_name :: "pytype \<Rightarrow> string" where
  "type_name TNone = ''NoneType''"
| "type_name TBool = ''bool''"
| "type_name TInt = ''int''"
| "type_name TFloat = ''float''"
| "type_name TStr = ''str''"
| "type_name TList = ''list''"
| "type_name TDict = ''dict''"

text \<open>
  Exceptions. \<open>AttributeError t a\<close> is the error of reading attribute \<open>a\<close> on an object
  of type \<open>t\<close>; \<open>Failed\<close> is what \<^verbatim>\<open>pytest.fail\<close> raises, which is not a subclass of
  \<^verbatim>\<open>Exception\<close>; \<open>OtherError\<close> stands for any other subclass of \<^verbatim>\<open>Exception\<close> a
  control author's mapper may raise.
\<close>

datatype exn =
    AttributeError string string
  | TypeError string
  | AssertionError string
  | Failed string
  | OtherError string

fun is_Exception :: "exn \<Rightarrow> bool" where
  "is_Exception (Failed m) = False"
| "is_Exception e = True"

definition quote :: "string \<Rightarrow> string" where
  "quote s = CHR 0x27 # s @ [CHR 0x27]"

text \<open>\<^verbatim>\<open>str(e)\<close> of an exception.\<close>

fun exn_str :: "exn \<Rightarrow> string" where
  "exn_str (AttributeError t a) = quote t @ '' object has no attribute '' @ quote a"
| "exn_str (TypeError m) = m"
| "exn_str (AssertionError m) = m"
| "exn_str (Failed m) = m"
| "exn_str (OtherError m) = m"

text \<open>
  \<^verbatim>\<open>obj.get(key, default)\<close>: only a \<^verbatim>\<open>dict\<close> has the method; on every other value of
  the model the attribute access itself raises \<^verbatim>\<open>AttributeError\<close>.
\<close>

definition py_get :: "pyval \<Rightarrow> string \<Rightarrow> pyval \<Rightarrow> exn + pyval" where
  "py_get obj key dflt =
     (case obj of
        PDict kvs \<Rightarrow> Inr (case map_of kvs key of Some v \<Rightarrow> v | None \<Rightarrow> dflt)
      | _ \<Rightarrow> Inl (AttributeError (type_name (py_type obj)) ''get''))"

section \<open>Rendering values as text\<close>

text \<open>
  The display mapper formats a value with an f-string, which is \<^verbatim>\<open>str(v)\<close>, and the
  diff helper uses \<^verbatim>\<open>repr\<close>. Both are built-ins of the language. Their results on
  \<^verbatim>\<open>None\<close>, booleans, integers, lists and dictionaries are written out here; the
  \<^verbatim>\<open>repr\<close> of a float and of a string (shortest round-trip digits, choice of quotes,
  escapes) and the iteration order of a \<^verbatim>\<open>set\<close> of strings, which the language leaves
  unspecified, are parameters of the model.
\<close>

record py_runtime =
  repr_float :: "rat \<Rightarrow> string"
  repr_str :: "string \<Rightarrow> string"
  set_iter :: "string list \<Rightarrow> string list"

definition digit_char :: "nat \<Rightarrow> char" where
  "digit_char d = ''0123456789'' ! d"

fun string_of_nat :: "nat \<Rightarrow> string" where
  "string_of_nat n =
     (if n < 10 then [digit_char n] else string_of_nat (n div 10) @ [digit_char (n mod 10)])"

declare string_of_nat.simps [simp del]

definition string_of_int :: "int \<Rightarrow> string" where
  "string_of_int i = (if i < 0 then CHR ''-'' # string_of_nat (nat (- i)) else string_of_nat (nat i))"

text \<open>\<^verbatim>\<open>sep.join(xs)\<close>\<close>

fun join :: "string \<Rightarrow> string list \<Rightarrow> string" where
  "join sep [] = []"
| "join sep [x] = x"
| "join sep (x # y # ys) = x @ sep @ join sep (y # ys)"

fun py_repr :: "py_runtime \<Rightarrow> pyval \<Rightarrow> string" where
  "py_repr rt PNone = ''None''"
| "py_repr rt (PBool b) = (if b then ''True'' else ''False'')"
| "py_repr rt (PInt i) = string_of_int i"
| "py_repr rt (PFloat f) = repr_float rt f"
| "py_repr rt (PStr s) = repr_str rt s"
| "py_repr rt (PList xs) = ''['' @ join '', '' (map (py_repr rt) xs) @ '']''"
| "py_repr rt (PDict kvs) =
     ''{'' @ join '', '' (map (\<lambda>(k, v). repr_str rt k @ '': '' @ py_repr rt v) kvs) @ ''}''"

text \<open>\<^verbatim>\<open>str(v)\<close>: a string is itself, every other value of the model is its \<^verbatim>\<open>repr\<close>.\<close>

definition py_str :: "py_runtime \<Rightarrow> pyval \<Rightarrow> string" where
  "py_str rt v = (case v of PStr s \<Rightarrow> s | _ \<Rightarrow> py_repr rt v)"

section \<open>The quickstart mappers\<close>

text \<open>
  \<^verbatim>\<open>quickstart/simple.boolean.check/mappers/detail.py\<close>:
  \<^verbatim>\<open>
  def main(occurrence, context):
      detail = occurrence.get('detail', {})
      value = detail.get('check_passed', False)
      return {'passed': value}
  \<close>
\<close>

definition detail_main :: "pyval \<Rightarrow> pyval \<Rightarrow> exn + pyval" where
  "detail_main occurrence context =
     (case py_get occurrence ''detail'' (PDict []) of
        Inl e \<Rightarrow> Inl e
      | Inr detail \<Rightarrow>
          (case py_get detail ''check_passed'' (PBool False) of
             Inl e \<Rightarrow> Inl e
           | Inr value \<Rightarrow> Inr (PDict [(''passed'', value)])))"

text \<open>
  \<^verbatim>\<open>quickstart/simple.boolean.check/mappers/display.py\<close>:
  \<^verbatim>\<open>
  def main(occurrence, attestation, context):
      detail = occurrence.get('detail', {})
      passed = detail.get('passed', False)
      return {
          'description': 'A simple boolean check - the most minimal control possible',
          'tag': f'Value: {passed}'
      }
  \<close>
\<close>

definition description_text :: string where
  "description_text = ''A simple boolean check - the most minimal control possible''"

definition display_main :: "py_runtime \<Rightarrow> pyval \<Rightarrow> pyval \<Rightarrow> pyval \<Rightarrow> exn + pyval" where
  "display_main rt occurrence attestation context =
     (case py_get occurrence ''detail'' (PDict []) of
        Inl e \<Rightarrow> Inl e
      | Inr detail \<Rightarrow>
          (case py_get detail ''passed'' (PBool False) of
             Inl e \<Rightarrow> Inl e
           | Inr passed \<Rightarrow>
               Inr (PDict [(''description'', PStr description_text),
                           (''tag'', PStr (''Value: '' @ py_str rt passed))])))"

text \<open>What a caller reads from a mapper's result.\<close>

definition returns_mapping :: "exn + pyval \<Rightarrow> bool" where
  "returns_mapping r = (case r of Inr (PDict kvs) \<Rightarrow> True | _ \<Rightarrow> False)"

definition result_field :: "exn + pyval \<Rightarrow> string \<Rightarrow> pyval option" where
  "result_field r key = (case r of Inr (PDict kvs) \<Rightarrow> map_of kvs key | _ \<Rightarrow> None)"

definition result_keys :: "exn + pyval \<Rightarrow> string list" where
  "result_keys r = (case r of Inr (PDict kvs) \<Rightarrow> map fst kvs | _ \<Rightarrow> [])"

text \<open>
  The value the mappers read from a detail mapping: \<^verbatim>\<open>detail.get(key, False)\<close>.
\<close>

definition get_or_false :: "(string \<times> pyval) list \<Rightarrow> string \<Rightarrow> pyval" where
  "get_or_false d key = (case map_of d key of Some v \<Rightarrow> v | None \<Rightarrow> PBool False)"

section \<open>Inputs of the test suite\<close>

text \<open>
  The fixtures of \<^verbatim>\<open>testing/mappers/test_detail.py\<close>: \<^verbatim>\<open>empty_occurrence\<close>,
  \<^verbatim>\<open>malformed_occurrence\<close>, the occurrence of \<^verbatim>\<open>test_handles_missing_detail_field\<close> and
  the fallback value of \<^verbatim>\<open>sample_occurrence\<close>.
\<close>

definition empty_occurrence :: pyval where
  "empty_occurrence =
     PDict [(''asset'', PDict [(''key'', PStr ''org/repo''), (''name'', PStr ''repo'')]),
            (''detail'', PDict []),
            (''status'', PStr ''complete''),
            (''type'', PStr ''occurrence'')]"

definition malformed_occurrence :: pyval where
  "malformed_occurrence =
     PDict [(''asset'', PNone),
            (''detail'', PDict [(''scan'', PNone)]),
            (''status'', PStr ''complete''),
            (''type'', PStr ''occurrence'')]"

definition missing_detail_occurrence :: pyval where
  "missing_detail_occurrence = PDict [(''asset'', PDict [(''key'', PStr ''test'')])]"

definition sample_occurrence :: pyval where
  "sample_occurrence =
     PDict [(''asset'', PDict [(''key'', PStr ''org/repo''), (''name'', PStr ''repo'')]),
            (''detail'', PDict [(''scan'', PDict [(''results'', PList [])])]),
            (''status'', PStr ''complete''),
            (''type'', PStr ''occurrence'')]"

text \<open>
  The fixture \<^verbatim>\<open>sample_attestation\<close> of \<^verbatim>\<open>testing/mappers/test_display.py\<close> (result
  \<^verbatim>\<open>fail\<close>) and the one of \<^verbatim>\<open>testing/mappers/conftest.py\<close> (result \<^verbatim>\<open>pass\<close>).
\<close>

definition sample_attestation :: pyval where
  "sample_attestation =
     PDict [(''policy'', PDict [(''data'', PDict
               [(''required'', PBool True),
                (''vulnerabilities'', PDict
                   [(''critical'', PDict [(''maximum'', PInt 0), (''exceptions'', PList [])]),
                    (''high'', PDict [(''maximum'', PInt 5), (''exceptions'', PList [])])])])]),
            (''result'', PStr ''fail'')]"

definition conftest_sample_attestation :: pyval where
  "conftest_sample_attestation =
     PDict [(''policy'', PDict [(''data'', PDict [(''required'', PBool True)])]),
            (''result'', PStr ''pass'')]"

text \<open>The two occurrences of \<^verbatim>\<open>TestConsistency.test_description_does_not_change\<close>.\<close>

definition occ_total :: "int \<Rightarrow> pyval" where
  "occ_total n = PDict [(''detail'', PDict [(''summary'', PDict [(''total'', PInt n)])])]"

section \<open>The checks of the test suite\<close>

text \<open>
  A test either passes (\<open>Inr ()\<close>) or ends with the exception that left it (\<open>Inl e\<close>).
  The mappers under test are parameters, as the suite imports whatever \<^verbatim>\<open>detail.py\<close>
  and \<^verbatim>\<open>display.py\<close> the control has.
\<close>

type_synonym detail_mapper = "pyval \<Rightarrow> pyval \<Rightarrow> exn + pyval"
type_synonym display_mapper = "pyval \<Rightarrow> pyval \<Rightarrow> pyval \<Rightarrow> exn + pyval"

text \<open>
  \<^verbatim>\<open>key in container\<close>: key membership for a dictionary, element membership for a list,
  substring for a string, \<^verbatim>\<open>TypeError\<close> for a value that is not iterable.
\<close>

definition py_in :: "string \<Rightarrow> pyval \<Rightarrow> exn + bool" where
  "py_in key container =
     (case container of
        PDict kvs \<Rightarrow> Inr (key \<in> set (map fst kvs))
      | PList xs \<Rightarrow> Inr (PStr key \<in> set xs)
      | PStr s \<Rightarrow> Inr (sublist key s)
      | _ \<Rightarrow> Inl (TypeError (''argument of type '' @ quote (type_name (py_type container))
                  @ '' is not iterable'')))"

text \<open>
  \<^verbatim>\<open>TestOutputStructure.test_returns_summary_field\<close> of \<^verbatim>\<open>test_detail.py\<close>:
  \<^verbatim>\<open>
  result = detail_mapper.main(sample_occurrence, {})
  assert 'summary' in result, "Output must contain 'summary' field"
  \<close>
\<close>

definition test_returns_summary_field :: "detail_mapper \<Rightarrow> pyval \<Rightarrow> exn + unit" where
  "test_returns_summary_field detail_mapper_main occurrence =
     (case detail_mapper_main occurrence (PDict []) of
        Inl e \<Rightarrow> Inl e
      | Inr result \<Rightarrow>
          (case py_in ''summary'' result of
             Inl e \<Rightarrow> Inl e
           | Inr present \<Rightarrow>
               if present then Inr ()
               else Inl (AssertionError (''Output must contain '' @ quote ''summary'' @ '' field''))))"

text \<open>
  \<^verbatim>\<open>TestWithRealData.test_all_payloads_process_successfully\<close> of \<^verbatim>\<open>test_detail.py\<close>:
  \<^verbatim>\<open>
  for filename, payload in all_test_payloads:
      try:
          result = detail_mapper.main(payload, {})
          assert isinstance(result, dict), f"{filename}: Should return dict"
          assert 'summary' in result, f"{filename}: Should have summary"
      except Exception as e:
          pytest.fail(f"{filename}: Failed to process: {e}")
  \<close>
  \<open>process_payload\<close> is the body of the \<^verbatim>\<open>try\<close>, \<open>check_payload\<close> one turn of the loop.
  \<^verbatim>\<open>pytest.fail\<close> raises, so the loop ends there.
\<close>

definition process_payload :: "detail_mapper \<Rightarrow> string \<Rightarrow> pyval \<Rightarrow> exn + unit" where
  "process_payload detail_mapper_main filename payload =
     (case detail_mapper_main payload (PDict []) of
        Inl e \<Rightarrow> Inl e
      | Inr result \<Rightarrow>
          if py_type result \<noteq> TDict then Inl (AssertionError (filename @ '': Should return dict''))
          else
            (case py_in ''summary'' result of
               Inl e \<Rightarrow> Inl e
             | Inr present \<Rightarrow>
                 if present then Inr ()
                 else Inl (AssertionError (filename @ '': Should have summary''))))"

definition check_payload :: "detail_mapper \<Rightarrow> string \<Rightarrow> pyval \<Rightarrow> exn + unit" where
  "check_payload detail_mapper_main filename payload =
     (case process_payload detail_mapper_main filename payload of
        Inl e \<Rightarrow>
          if is_Exception e then Inl (Failed (filename @ '': Failed to process: '' @ exn_str e))
          else Inl e
      | Inr u \<Rightarrow> Inr ())"

fun test_all_payloads_process_successfully ::
  "detail_mapper \<Rightarrow> (string \<times> pyval) list \<Rightarrow> exn + unit" where
  "test_all_payloads_process_successfully detail_mapper_main [] = Inr ()"
| "test_all_payloads_process_successfully detail_mapper_main ((filename, payload) # rest) =
     (case check_payload detail_mapper_main filename payload of
        Inl e \<Rightarrow> Inl e
      | Inr u \<Rightarrow> test_all_payloads_process_successfully detail_mapper_main rest)"

text \<open>
  \<^verbatim>\<open>TestIntegrationWithDetail.test_display_works_with_detail_output\<close> of
  \<^verbatim>\<open>test_display.py\<close>:
  \<^verbatim>\<open>
  for payload in test_payloads:
      mapped_detail = detail_mapper.main(payload, {})
      occurrence_with_detail = {**payload, "detail": mapped_detail}
      try:
          result = display_mapper.main(occurrence_with_detail, sample_attestation, {})
          assert isinstance(result, dict)
          assert 'description' in result
          assert 'tag' in result
      except Exception as e:
          pytest.fail(f"Display mapper failed with detail output: {e}")
  \<close>
  The payloads are loaded without their file names. \<open>splice_detail\<close> is the dictionary
  display \<^verbatim>\<open>{**payload, "detail": mapped_detail}\<close>, which needs a mapping to unpack;
  \<open>display_checks\<close> is the body of the \<^verbatim>\<open>try\<close>, \<open>check_integration\<close> one turn of the loop.
\<close>

definition splice_detail :: "pyval \<Rightarrow> pyval \<Rightarrow> exn + pyval" where
  "splice_detail payload mapped_detail =
     (case payload of
        PDict kvs \<Rightarrow> Inr (PDict (AList.update ''detail'' mapped_detail kvs))
      | _ \<Rightarrow> Inl (TypeError (quote (type_name (py_type payload)) @ '' object is not a mapping'')))"

definition assert_in :: "string \<Rightarrow> pyval \<Rightarrow> exn + unit" where
  "assert_in key result =
     (case py_in key result of
        Inl e \<Rightarrow> Inl e
      | Inr present \<Rightarrow> if present then Inr () else Inl (AssertionError []))"

definition display_checks :: "display_mapper \<Rightarrow> pyval \<Rightarrow> pyval \<Rightarrow> exn + unit" where
  "display_checks display_mapper_main occurrence_with_detail attestation =
     (case display_mapper_main occurrence_with_detail attestation (PDict []) of
        Inl e \<Rightarrow> Inl e
      | Inr result \<Rightarrow>
          if py_type result \<noteq> TDict then Inl (AssertionError [])
          else
            (case assert_in ''description'' result of
               Inl e \<Rightarrow> Inl e
             | Inr u \<Rightarrow> assert_in ''tag'' result))"

definition check_integration ::
  "detail_mapper \<Rightarrow> display_mapper \<Rightarrow> pyval \<Rightarrow> pyval \<Rightarrow> exn + unit" where
  "check_integration detail_mapper_main display_mapper_main payload attestation =
     (case detail_mapper_main payload (PDict []) of
        Inl e \<Rightarrow> Inl e
      | Inr mapped_detail \<Rightarrow>
          (case splice_detail payload mapped_detail of
             Inl e \<Rightarrow> Inl e
           | Inr occurrence_with_detail \<Rightarrow>
               (case display_checks display_mapper_main occurrence_with_detail attestation of
                  Inl e \<Rightarrow>
                    if is_Exception e
                    then Inl (Failed (''Display mapper failed with detail output: '' @ exn_str e))
                    else Inl e
                | Inr u \<Rightarrow> Inr ())))"

fun test_display_works_with_detail_output ::
  "detail_mapper \<Rightarrow> display_mapper \<Rightarrow> pyval list \<Rightarrow> pyval \<Rightarrow> exn + unit" where
  "test_display_works_with_detail_output detail_mapper_main display_mapper_main [] attestation =
     Inr ()"
| "test_display_works_with_detail_output detail_mapper_main display_mapper_main (payload # rest)
     attestation =
     (case check_integration detail_mapper_main display_mapper_main payload attestation of
        Inl e \<Rightarrow> Inl e
      | Inr u \<Rightarrow>
          test_display_works_with_detail_output detail_mapper_main display_mapper_main rest
            attestation)"

text \<open>A report names a fixture when the fixture's file name occurs in its text.\<close>

definition report_names :: "exn + unit \<Rightarrow> string \<Rightarrow> bool" where
  "report_names report filename =
     (case report of Inl e \<Rightarrow> sublist filename (exn_str e) | Inr u \<Rightarrow> False)"

section \<open>The structural diff helper\<close>

text \<open>
  \<^verbatim>\<open>json_diff\<close> of \<^verbatim>\<open>testing/mappers/conftest.py\<close> returns the function \<^verbatim>\<open>_diff\<close>:
  \<^verbatim>\<open>
  def _diff(obj1, obj2, path=""):
      if type(obj1) != type(obj2):
          return f"{path}: Type mismatch {type(obj1).__name__} vs {type(obj2).__name__}"
      if isinstance(obj1, dict):
          all_keys = set(obj1.keys()) | set(obj2.keys())
          diffs = []
          for key in all_keys:
              if key not in obj1:
                  diffs.append(f"{path}.{key}: Missing in first object")
              elif key not in obj2:
                  diffs.append(f"{path}.{key}: Missing in second object")
              else:
                  sub_diff = _diff(obj1[key], obj2[key], f"{path}.{key}")
                  if sub_diff:
                      diffs.append(sub_diff)
          return "\n".join(diffs) if diffs else ""
      elif isinstance(obj1, list):
          if len(obj1) != len(obj2):
              return f"{path}: List length mismatch {len(obj1)} vs {len(obj2)}"
          diffs = []
          for i, (item1, item2) in enumerate(zip(obj1, obj2)):
              sub_diff = _diff(item1, item2, f"{path}[{i}]")
              if sub_diff:
                  diffs.append(sub_diff)
          return "\n".join(diffs) if diffs else ""
      else:
          if obj1 != obj2:
              return f"{path}: Value mismatch {obj1!r} vs {obj2!r}"
      return ""
  \<close>
  The keys are visited in the order \<open>set_iter\<close> gives to the keys of both dictionaries.
  The recursion descends into the first argument, which the two lemmas before the
  definition measure.
\<close>

lemma size_map_of: "map_of kvs k = Some v \<Longrightarrow> size v < size (PDict kvs)"
  by (induction kvs) (auto split: if_splits)

lemma size_enumerate_zip:
  "(i, a, b) \<in> set (enumerate n (zip xs ys)) \<Longrightarrow> size a < Suc (size_list size xs)"
proof -
  assume "(i, a, b) \<in> set (enumerate n (zip xs ys))"
  then have "(a, b) \<in> set (zip xs ys)"
    by (auto simp: enumerate_eq_zip dest: set_zip_rightD)
  then have "a \<in> set xs"
    by (rule set_zip_leftD)
  then have "size a \<le> size_list size xs"
    by (simp add: size_list_estimation')
  then show ?thesis by simp
qed

function json_diff :: "py_runtime \<Rightarrow> pyval \<Rightarrow> pyval \<Rightarrow> string \<Rightarrow> string" where
  "json_diff rt obj1 obj2 path =
     (if py_type obj1 \<noteq> py_type obj2 then
        path @ '': Type mismatch '' @ type_name (py_type obj1) @ '' vs ''
          @ type_name (py_type obj2)
      else
        (case (obj1, obj2) of
           (PDict kvs1, PDict kvs2) \<Rightarrow>
             (let all_keys = set_iter rt (map fst kvs1 @ map fst kvs2);
                  diffs = concat (map (\<lambda>key.
                    (case map_of kvs1 key of
                       None \<Rightarrow> [path @ ''.'' @ key @ '': Missing in first object'']
                     | Some v1 \<Rightarrow>
                         (case map_of kvs2 key of
                            None \<Rightarrow> [path @ ''.'' @ key @ '': Missing in second object'']
                          | Some v2 \<Rightarrow>
                              (let sub_diff = json_diff rt v1 v2 (path @ ''.'' @ key)
                               in if sub_diff \<noteq> [] then [sub_diff] else [])))) all_keys)
              in if diffs \<noteq> [] then join [CHR 0x0A] diffs else [])
         | (PList xs, PList ys) \<Rightarrow>
             (if length xs \<noteq> length ys then
                path @ '': List length mismatch '' @ string_of_nat (length xs) @ '' vs ''
                  @ string_of_nat (length ys)
              else
                (let diffs = concat (map (\<lambda>(i, item1, item2).
                       (let sub_diff =
                              json_diff rt item1 item2 (path @ ''['' @ string_of_nat i @ '']'')
                        in if sub_diff \<noteq> [] then [sub_diff] else []))
                       (enumerate 0 (zip xs ys)))
                 in if diffs \<noteq> [] then join [CHR 0x0A] diffs else []))
         | _ \<Rightarrow>
             (if obj1 \<noteq> obj2 then
                path @ '': Value mismatch '' @ py_repr rt obj1 @ '' vs '' @ py_repr rt obj2
              else [])))"
  by pat_completeness auto
termination
  by (relation "measure (\<lambda>(rt, a, b, p). size a)")
     (auto dest: size_map_of size_enumerate_zip)

declare json_diff.simps [simp del]

text \<open>
  Structural equality of two JSON values, as the specification words it: the same type
  at every position, the same key sets in mappings, the same lengths and element-wise
  equal sequences, equal scalars.
\<close>

function struct_eq :: "pyval \<Rightarrow> pyval \<Rightarrow> bool" where
  "struct_eq a b =
     (py_type a = py_type b \<and>
      (case (a, b) of
         (PDict kvs1, PDict kvs2) \<Rightarrow>
           set (map fst kvs1) = set (map fst kvs2) \<and>
           list_all (\<lambda>key.
             (case map_of kvs1 key of
                None \<Rightarrow> False
              | Some v1 \<Rightarrow> (case map_of kvs2 key of None \<Rightarrow> False | Some v2 \<Rightarrow> struct_eq v1 v2)))
             (map fst kvs1)
       | (PList xs, PList ys) \<Rightarrow>
           length xs = length ys \<and> list_all (\<lambda>(x, y). struct_eq x y) (zip xs ys)
       | _ \<Rightarrow> a = b))"
  by pat_completeness auto
termination
  by (relation "measure (\<lambda>(a, b). size a)")
     (auto dest: size_map_of set_zip_leftD simp: size_list_estimation' less_Suc_eq_le)

declare struct_eq.simps [simp del]

text \<open>
  Positions in a value: a path is a sequence of dictionary keys and list indices;
  \<open>render_path\<close> writes it the way \<^verbatim>\<open>_diff\<close> extends its \<^verbatim>\<open>path\<close> argument.
\<close>

datatype step = Key string | Index nat

fun render_step :: "step \<Rightarrow> string" where
  "render_step (Key k) = ''.'' @ k"
| "render_step (Index i) = ''['' @ string_of_nat i @ '']''"

definition render_path :: "step list \<Rightarrow> string" where
  "render_path p = concat (map render_step p)"

fun at_path :: "pyval \<Rightarrow> step list \<Rightarrow> pyval option" where
  "at_path v [] = Some v"
| "at_path (PDict kvs) (Key k # p) = (case map_of kvs k of None \<Rightarrow> None | Some v \<Rightarrow> at_path v p)"
| "at_path (PList xs) (Index i # p) = (if i < length xs then at_path (xs ! i) p else None)"
| "at_path v (s # p) = None"

text \<open>
  Two values differ at a path when one of them has no value there, or both have one and
  these are of different types, lists of different lengths, or unequal scalars.
\<close>

definition differ_here :: "pyval \<Rightarrow> pyval \<Rightarrow> bool" where
  "differ_here a b =
     (py_type a \<noteq> py_type b \<or>
      (case (a, b) of
         (PDict kvs1, PDict kvs2) \<Rightarrow> False
       | (PList xs, PList ys) \<Rightarrow> length xs \<noteq> length ys
       | _ \<Rightarrow> a \<noteq> b))"

definition differ_at :: "pyval \<Rightarrow> pyval \<Rightarrow> step list \<Rightarrow> bool" where
  "differ_at x y p =
     (case (at_path x p, at_path y p) of
        (Some a, Some b) \<Rightarrow> differ_here a b
      | (None, None) \<Rightarrow> False
      | _ \<Rightarrow> True)"

section \<open>Occurrences that differ only in numeric detail fields\<close>

text \<open>
  Two values are numeric variants of each other when they have the same shape and the
  same content except that a number may stand where the other has another number. Two
  occurrences differ only in numeric detail fields when they are distinct mappings whose
  \<^verbatim>\<open>detail\<close> entries are mappings and numeric variants, and whose other entries are the
  same.
\<close>

definition is_number :: "pyval \<Rightarrow> bool" where
  "is_number v = (py_type v = TInt \<or> py_type v = TFloat)"

function (sequential) numeric_variant :: "pyval \<Rightarrow> pyval \<Rightarrow> bool" where
  "numeric_variant (PList xs) (PList ys) =
     (length xs = length ys \<and> list_all (\<lambda>(x, y). numeric_variant x y) (zip xs ys))"
| "numeric_variant (PDict kvs1) (PDict kvs2) =
     (map fst kvs1 = map fst kvs2 \<and>
      list_all (\<lambda>(v1, v2). numeric_variant v1 v2) (zip (map snd kvs1) (map snd kvs2)))"
| "numeric_variant a b = ((is_number a \<and> is_number b) \<or> a = b)"
  by pat_completeness auto
termination
proof (relation "measure (\<lambda>(a, b). size a)", goal_cases)
  case 1
  show ?case by simp
next
  case (2 xs ys z x y)
  then have "x \<in> set xs"
    by (auto dest: set_zip_leftD)
  then have "size x \<le> size_list size xs"
    by (simp add: size_list_estimation')
  then show ?case by simp
next
  case (3 kvs1 kvs2 z v1 v2)
  then have "v1 \<in> snd ` set kvs1"
    by (auto dest: set_zip_leftD)
  then obtain k where "(k, v1) \<in> set kvs1"
    by auto
  then have "size v1 < size (PDict kvs1)"
    by (induction kvs1) auto
  then show ?case by simp
qed

definition differ_only_in_numeric_detail :: "pyval \<Rightarrow> pyval \<Rightarrow> bool" where
  "differ_only_in_numeric_detail o1 o2 =
     (o1 \<noteq> o2 \<and>
      (case (o1, o2) of
         (PDict kvs1, PDict kvs2) \<Rightarrow>
           (case (map_of kvs1 ''detail'', map_of kvs2 ''detail'') of
              (Some (PDict d1), Some (PDict d2)) \<Rightarrow>
                numeric_variant (PDict d1) (PDict d2) \<and>
                AList.delete ''detail'' kvs1 = AList.delete ''detail'' kvs2
            | _ \<Rightarrow> False)
       | _ \<Rightarrow> False))"

section \<open>Further inputs and predicates of the statements\<close>

text \<open>
  A runtime for evaluating examples. It agrees with the language on the examples' plain
  ASCII strings (no quote, backslash or control character) and integral floats, and
  visits the keys of a set in the order of their first occurrence.
\<close>

definition sample_runtime :: py_runtime where
  "sample_runtime =
     \<lparr>repr_float = (\<lambda>f. string_of_int \<lfloor>f\<rfloor> @ ''.0''), repr_str = quote, set_iter = remdups\<rparr>"

text \<open>
  The fixture \<^verbatim>\<open>malformed_occurrence\<close> with the null one level up: \<^verbatim>\<open>detail\<close> itself
  is null.
\<close>

definition malformed_null_detail :: pyval where
  "malformed_null_detail =
     PDict [(''asset'', PNone),
            (''detail'', PNone),
            (''status'', PStr ''complete''),
            (''type'', PStr ''occurrence'')]"

text \<open>
  The occurrences whose detail can be read with \<^verbatim>\<open>.get\<close>: mappings whose \<^verbatim>\<open>detail\<close>
  entry is absent or is a mapping.
\<close>

definition detail_readable :: "pyval \<Rightarrow> bool" where
  "detail_readable occurrence =
     (case occurrence of
        PDict kvs \<Rightarrow>
          (case map_of kvs ''detail'' of None \<Rightarrow> True | Some x \<Rightarrow> py_type x = TDict)
      | _ \<Rightarrow> False)"

text \<open>Two payload files of a control, as \<^verbatim>\<open>all_test_payloads\<close> loads them.\<close>

definition corpus_fixtures :: "(string \<times> pyval) list" where
  "corpus_fixtures =
     [(''occ_case_1.json'', PDict [(''detail'', PDict [(''check_passed'', PBool True)])]),
      (''occ_case_2.json'', PDict [(''detail'', PDict [])])]"

text \<open>
  Three documents for the diff helper: the second differs from the first in the string at
  \<^verbatim>\<open>.b[1]\<close>; the third is the first with its keys in the other order.
\<close>

definition diff_left :: pyval where
  "diff_left = PDict [(''a'', PInt 1), (''b'', PList [PInt 1, PStr ''x''])]"

definition diff_right :: pyval where
  "diff_right = PDict [(''b'', PList [PInt 1, PStr ''y'']), (''a'', PInt 1)]"

definition diff_left_reordered :: pyval where
  "diff_left_reordered = PDict [(''b'', PList [PInt 1, PStr ''x'']), (''a'', PInt 1)]"

text \<open>The tag and the description a caller reads from the display mapper's result.\<close>

definition result_str :: "exn + pyval \<Rightarrow> string \<Rightarrow> string option" where
  "result_str r key = (case result_field r key of Some (PStr s) \<Rightarrow> Some s | _ \<Rightarrow> None)"

section \<open>Invocations in an environment\<close>

text \<open>
  What the body of a Python function can reach besides its arguments: the globals of its
  module, which survive from one invocation to the next, the clock, and the random
  generator; \<open>random_draws\<close> is the sequence of numbers the generator has yet to deliver.
  A procedure takes the world it is invoked in to its result or exception and the world
  it leaves behind.
\<close>

record world =
  module_globals :: "(string \<times> pyval) list"
  clock :: rat
  random_draws :: "nat \<Rightarrow> rat"

type_synonym 'a py = "world \<Rightarrow> (exn + 'a) \<times> world"

definition py_return :: "'a \<Rightarrow> 'a py" where
  "py_return x = (\<lambda>w. (Inr x, w))"

definition py_raise :: "exn \<Rightarrow> 'a py" where
  "py_raise e = (\<lambda>w. (Inl e, w))"

definition py_bind :: "'a py \<Rightarrow> ('a \<Rightarrow> 'b py) \<Rightarrow> 'b py" where
  "py_bind m f = (\<lambda>w. case m w of (Inl e, w') \<Rightarrow> (Inl e, w') | (Inr x, w') \<Rightarrow> f x w')"

text \<open>
  \<^verbatim>\<open>time.time()\<close>, \<^verbatim>\<open>random.random()\<close>, and reading and assigning a module-level name:
  the operations by which a body reads the world or changes it.
\<close>

definition time_time :: "pyval py" where
  "time_time = (\<lambda>w. (Inr (PFloat (clock w)), w))"

definition random_random :: "pyval py" where
  "random_random =
     (\<lambda>w. (Inr (PFloat (random_draws w 0)),
            w\<lparr>random_draws := (\<lambda>n. random_draws w (Suc n))\<rparr>))"

definition global_get :: "string \<Rightarrow> pyval py" where
  "global_get name =
     (\<lambda>w. (case map_of (module_globals w) name of
              Some v \<Rightarrow> Inr v
            | None \<Rightarrow> Inl (OtherError (''name '' @ quote name @ '' is not defined'')), w))"

definition global_set :: "string \<Rightarrow> pyval \<Rightarrow> unit py" where
  "global_set name v =
     (\<lambda>w. (Inr (), w\<lparr>module_globals := AList.update name v (module_globals w)\<rparr>))"

text \<open>
  \<^verbatim>\<open>obj.get(key, default)\<close> as an operation: it reads the dictionary it is called on,
  and leaves the dictionary and the world as they are.
\<close>

definition dict_get :: "pyval \<Rightarrow> string \<Rightarrow> pyval \<Rightarrow> pyval py" where
  "dict_get obj key dflt = (\<lambda>w. (py_get obj key dflt, w))"

text \<open>
  The two mappers as procedures, statement by statement: two calls of \<^verbatim>\<open>.get\<close> and the
  construction of the returned dictionary, and in \<^verbatim>\<open>display.py\<close> the f-string, which
  applies \<^verbatim>\<open>str\<close> to the value read.
\<close>

definition detail_main_call :: "pyval \<Rightarrow> pyval \<Rightarrow> pyval py" where
  "detail_main_call occurrence context =
     py_bind (dict_get occurrence ''detail'' (PDict [])) (\<lambda>detail.
     py_bind (dict_get detail ''check_passed'' (PBool False)) (\<lambda>value.
     py_return (PDict [(''passed'', value)])))"

definition display_main_call :: "py_runtime \<Rightarrow> pyval \<Rightarrow> pyval \<Rightarrow> pyval \<Rightarrow> pyval py" where
  "display_main_call rt occurrence attestation context =
     py_bind (dict_get occurrence ''detail'' (PDict [])) (\<lambda>detail.
     py_bind (dict_get detail ''passed'' (PBool False)) (\<lambda>passed.
     py_return (PDict [(''description'', PStr description_text),
                       (''tag'', PStr (''Value: '' @ py_str rt passed))])))"

text \<open>
  \<^verbatim>\<open>==\<close> on values: \<^verbatim>\<open>bool\<close>, \<^verbatim>\<open>int\<close> and \<^verbatim>\<open>float\<close> compare by numerical value across
  the three types; lists are equal when they have the same length and equal elements;
  dictionaries are equal when they have the same keys with equal values, in whatever
  order the keys were inserted; values of other different types are unequal.
\<close>

fun py_number :: "pyval \<Rightarrow> rat option" where
  "py_number (PBool b) = Some (if b then 1 else 0)"
| "py_number (PInt i) = Some (of_int i)"
| "py_number (PFloat f) = Some f"
| "py_number v = None"

function py_eq :: "pyval \<Rightarrow> pyval \<Rightarrow> bool" where
  "py_eq a b =
     (case (a, b) of
        (PNone, PNone) \<Rightarrow> True
      | (PStr s, PStr t) \<Rightarrow> s = t
      | (PList xs, PList ys) \<Rightarrow>
          length xs = length ys \<and> list_all (\<lambda>(x, y). py_eq x y) (zip xs ys)
      | (PDict kvs1, PDict kvs2) \<Rightarrow>
          set (map fst kvs1) = set (map fst kvs2) \<and>
          list_all (\<lambda>key.
            (case map_of kvs1 key of
               None \<Rightarrow> False
             | Some v1 \<Rightarrow> (case map_of kvs2 key of None \<Rightarrow> False | Some v2 \<Rightarrow> py_eq v1 v2)))
            (map fst kvs1)
      | _ \<Rightarrow> (case (py_number a, py_number b) of (Some x, Some y) \<Rightarrow> x = y | _ \<Rightarrow> False))"
  by pat_completeness auto
termination
  by (relation "measure (\<lambda>(a, b). size a)")
     (auto dest: size_map_of set_zip_leftD simp: size_list_estimation' less_Suc_eq_le)

declare py_eq.simps [simp del]

text \<open>
  \<^verbatim>\<open>TestConsistency.test_consistent_output_for_same_input\<close> of
  \<^verbatim>\<open>testing/mappers/test_display.py\<close>:
  \<^verbatim>\<open>
  result1 = display_mapper.main(sample_occurrence, sample_attestation, {})
  result2 = display_mapper.main(sample_occurrence, sample_attestation, {})
  assert result1 == result2, "Same input should produce same output"
  \<close>
  The second invocation runs in the world the first one left.
\<close>

definition test_consistent_output_for_same_input ::
  "(pyval \<Rightarrow> pyval \<Rightarrow> pyval \<Rightarrow> pyval py) \<Rightarrow> pyval \<Rightarrow> pyval \<Rightarrow> unit py" where
  "test_consistent_output_for_same_input display_mapper occurrence attestation =
     py_bind (display_mapper occurrence attestation (PDict [])) (\<lambda>result1.
     py_bind (display_mapper occurrence attestation (PDict [])) (\<lambda>result2.
     if py_eq result1 result2 then py_return ()
     else py_raise (AssertionError ''Same input should produce same output'')))"

text \<open>
  Two worlds that differ in their globals, their clock and their random numbers.
\<close>

definition world_at_start :: world where
  "world_at_start = \<lparr>module_globals = [], clock = 0, random_draws = (\<lambda>n. 0)\<rparr>"

definition world_later :: world where
  "world_later =
     \<lparr>module_globals = [(''calls'', PInt 1)], clock = 17, random_draws = (\<lambda>n. 1 / 2)\<rparr>"

section \<open>The detail mapper\<close>

lemma py_get_dict:
  "py_get (PDict kvs) key dflt = Inr (case map_of kvs key of Some v \<Rightarrow> v | None \<Rightarrow> dflt)"
  by (simp add: py_get_def)

lemma py_get_not_dict:
  "py_type obj \<noteq> TDict \<Longrightarrow>
   py_get obj key dflt = Inl (AttributeError (type_name (py_type obj)) ''get'')"
  by (cases obj) (simp_all add: py_get_def)

lemma detail_main_not_dict:
  "py_type occurrence \<noteq> TDict \<Longrightarrow>
   detail_main occurrence context = Inl (AttributeError (type_name (py_type occurrence)) ''get'')"
  by (simp add: detail_main_def py_get_not_dict)

lemma detail_main_absent:
  "map_of kvs ''detail'' = None \<Longrightarrow>
   detail_main (PDict kvs) context = Inr (PDict [(''passed'', PBool False)])"
  by (simp add: detail_main_def py_get_dict)

lemma detail_main_mapping:
  "map_of kvs ''detail'' = Some (PDict d) \<Longrightarrow>
   detail_main (PDict kvs) context = Inr (PDict [(''passed'', get_or_false d ''check_passed'')])"
  by (simp add: detail_main_def py_get_dict get_or_false_def)

lemma detail_main_detail_not_dict:
  "map_of kvs ''detail'' = Some x \<Longrightarrow> py_type x \<noteq> TDict \<Longrightarrow>
   detail_main (PDict kvs) context = Inl (AttributeError (type_name (py_type x)) ''get'')"
  by (simp add: detail_main_def py_get_dict py_get_not_dict)

text \<open>
  Claim C1, as stated: for every occurrence mapping and every context the detail mapper
  returns \<^verbatim>\<open>{passed: v}\<close>, with \<^verbatim>\<open>v\<close> false whenever the occurrence has no detail
  mapping with the key \<^verbatim>\<open>check_passed\<close>. The occurrence \<^verbatim>\<open>{"detail": null}\<close> is a
  mapping without such a detail mapping, and the mapper does not return \<^verbatim>\<open>{passed: false}\<close>
  for it: \<^verbatim>\<open>None.get\<close> raises \<^verbatim>\<open>AttributeError\<close>.
\<close>

theorem detail_main_null_detail_raises:
  "detail_main (PDict [(''detail'', PNone)]) (PDict []) = Inl (AttributeError ''NoneType'' ''get'')
   \<and> detail_main (PDict [(''detail'', PNone)]) (PDict []) \<noteq> Inr (PDict [(''passed'', PBool False)])"
  by (simp add: detail_main_def py_get_def)

text \<open>
  Claim C1, amended: for every occurrence mapping whose \<^verbatim>\<open>detail\<close> entry is absent or is
  a mapping, and every context, the detail mapper returns exactly the one-key mapping
  \<^verbatim>\<open>{passed: v}\<close>, where \<^verbatim>\<open>v\<close> is \<^verbatim>\<open>detail.check_passed\<close> when the detail mapping has that
  key and false otherwise. When the \<^verbatim>\<open>detail\<close> entry is present and is not a mapping, the
  call raises \<^verbatim>\<open>AttributeError\<close>.
\<close>

theorem detail_main_passed:
  "(map_of kvs ''detail'' = Some (PDict d) \<and> map_of d ''check_passed'' = Some v \<longrightarrow>
      detail_main (PDict kvs) c = Inr (PDict [(''passed'', v)]))
   \<and> (map_of kvs ''detail'' = Some (PDict d) \<and> map_of d ''check_passed'' = None \<longrightarrow>
      detail_main (PDict kvs) c = Inr (PDict [(''passed'', PBool False)]))
   \<and> (map_of kvs ''detail'' = None \<longrightarrow>
      detail_main (PDict kvs) c = Inr (PDict [(''passed'', PBool False)]))
   \<and> (map_of kvs ''detail'' = Some x \<and> py_type x \<noteq> TDict \<longrightarrow>
      detail_main (PDict kvs) c = Inl (AttributeError (type_name (py_type x)) ''get''))"
  by (simp add: detail_main_absent detail_main_mapping detail_main_detail_not_dict get_or_false_def)

text \<open>
  The instances the claim names (\<^verbatim>\<open>detail = {check_passed: true}\<close> and the empty detail),
  an occurrence without \<^verbatim>\<open>detail\<close>, and one whose \<^verbatim>\<open>detail\<close> is a list.
\<close>

theorem detail_main_passed_witness:
  "detail_main (PDict [(''detail'', PDict [(''check_passed'', PBool True)])]) (PDict [])
     = Inr (PDict [(''passed'', PBool True)])
   \<and> detail_main empty_occurrence (PDict []) = Inr (PDict [(''passed'', PBool False)])
   \<and> detail_main missing_detail_occurrence PNone = Inr (PDict [(''passed'', PBool False)])
   \<and> detail_main (PDict [(''detail'', PList [])]) (PDict []) = Inl (AttributeError ''list'' ''get'')"
  using
    detail_main_passed [of "[(''detail'', PDict [(''check_passed'', PBool True)])]"
      "[(''check_passed'', PBool True)]" "PBool True" "PDict []" PNone]
    detail_main_passed [of "[(''asset'', PDict [(''key'', PStr ''org/repo''), (''name'', PStr ''repo'')]),
            (''detail'', PDict []),
            (''status'', PStr ''complete''),
            (''type'', PStr ''occurrence'')]" "[]" PNone "PDict []" PNone]
    detail_main_passed [of "[(''asset'', PDict [(''key'', PStr ''test'')])]" "[]" PNone PNone PNone]
    detail_main_passed [of "[(''detail'', PList [])]" "[]" PNone "PDict []" "PList []"]
  by (simp add: empty_occurrence_def missing_detail_occurrence_def)

section \<open>Robustness of the detail mapper\<close>

text \<open>
  Claim C3, as stated: the detail mapper returns a mapping for every non-null malformed
  occurrence, and only a wholly-null occurrence may fail. The occurrence below is not
  null: it is the mapping of the fixture \<^verbatim>\<open>malformed_occurrence\<close> with \<^verbatim>\<open>detail\<close> itself
  null. With an empty context the mapper fails on it.
\<close>

theorem detail_main_null_nested_detail_raises:
  "malformed_null_detail \<noteq> PNone
   \<and> py_type malformed_null_detail = TDict
   \<and> detail_main malformed_null_detail (PDict []) = Inl (AttributeError ''NoneType'' ''get'')
   \<and> \<not> returns_mapping (detail_main malformed_null_detail (PDict []))"
  by (simp add: malformed_null_detail_def detail_main_def py_get_def returns_mapping_def)

lemma detail_main_readable:
  assumes "detail_readable occurrence"
  shows "returns_mapping (detail_main occurrence context)"
proof -
  from assms obtain kvs where o: "occurrence = PDict kvs"
    by (cases occurrence) (simp_all add: detail_readable_def)
  show ?thesis
  proof (cases "map_of kvs ''detail''")
    case None
    then show ?thesis
      by (simp add: o detail_main_absent returns_mapping_def)
  next
    case (Some x)
    with assms o obtain d where "x = PDict d"
      by (cases x) (simp_all add: detail_readable_def)
    with Some show ?thesis
      by (simp add: o detail_main_mapping returns_mapping_def)
  qed
qed

lemma detail_main_not_readable:
  assumes "\<not> detail_readable occurrence"
  shows "\<exists>t. detail_main occurrence context = Inl (AttributeError t ''get'')"
proof (cases "py_type occurrence = TDict")
  case False
  then show ?thesis
    by (simp add: detail_main_not_dict)
next
  case True
  then obtain kvs where o: "occurrence = PDict kvs"
    by (cases occurrence) simp_all
  with assms obtain x where "map_of kvs ''detail'' = Some x" "py_type x \<noteq> TDict"
    by (auto simp add: detail_readable_def split: option.splits)
  then show ?thesis
    by (simp add: o detail_main_detail_not_dict)
qed

text \<open>
  Claim C3, amended: with any context, the empty one included, the detail mapper returns
  a mapping for every occurrence that is a mapping whose \<^verbatim>\<open>detail\<close> entry is absent or is
  a mapping; the occurrence with empty detail, the occurrence without \<^verbatim>\<open>detail\<close> and the
  occurrence with \<^verbatim>\<open>asset\<close> null and \<^verbatim>\<open>detail.scan\<close> null are such occurrences. On every
  other occurrence it fails, and always with an attribute error on \<^verbatim>\<open>get\<close>. On the null
  occurrence this is the error of the first attribute access, \<^verbatim>\<open>occurrence.get\<close>. The
  function computes a value and nothing else, so a failure leaves nothing behind.
\<close>

theorem detail_main_robustness:
  "(detail_readable occurrence \<longrightarrow> returns_mapping (detail_main occurrence context))
   \<and> (\<not> detail_readable occurrence \<longrightarrow>
        (\<exists>t. detail_main occurrence context = Inl (AttributeError t ''get'')))
   \<and> detail_readable empty_occurrence
   \<and> detail_readable missing_detail_occurrence
   \<and> detail_readable malformed_occurrence
   \<and> py_get PNone ''detail'' (PDict []) = Inl (AttributeError ''NoneType'' ''get'')
   \<and> detail_main PNone context = Inl (AttributeError ''NoneType'' ''get'')"
proof -
  have "detail_readable empty_occurrence"
    by (simp add: detail_readable_def empty_occurrence_def)
  moreover have "detail_readable missing_detail_occurrence"
    by (simp add: detail_readable_def missing_detail_occurrence_def)
  moreover have "detail_readable malformed_occurrence"
    by (simp add: detail_readable_def malformed_occurrence_def)
  moreover have "py_get PNone ''detail'' (PDict []) = Inl (AttributeError ''NoneType'' ''get'')"
    by (simp add: py_get_def)
  moreover have "detail_main PNone context = Inl (AttributeError ''NoneType'' ''get'')"
    by (simp add: detail_main_not_dict)
  ultimately show ?thesis
    using detail_main_readable detail_main_not_readable by blast
qed

text \<open>
  The three occurrences of the edge-case tests, the null occurrence, and an occurrence
  that is a list.
\<close>

theorem detail_main_robustness_witness:
  "returns_mapping (detail_main empty_occurrence (PDict []))
   \<and> returns_mapping (detail_main missing_detail_occurrence (PDict []))
   \<and> returns_mapping (detail_main malformed_occurrence (PDict []))
   \<and> detail_main PNone (PDict []) = Inl (AttributeError ''NoneType'' ''get'')
   \<and> (\<exists>t. detail_main (PList []) (PDict []) = Inl (AttributeError t ''get''))"
proof -
  have "\<not> detail_readable (PList [])"
    by (simp add: detail_readable_def)
  then show ?thesis
    using detail_main_robustness [of empty_occurrence "PDict []"]
      detail_main_robustness [of missing_detail_occurrence "PDict []"]
      detail_main_robustness [of malformed_occurrence "PDict []"]
      detail_main_robustness [of "PList []" "PDict []"]
    by blast
qed

section \<open>The display mapper\<close>

lemma display_main_not_dict:
  "py_type occurrence \<noteq> TDict \<Longrightarrow>
   display_main rt occurrence attestation context
     = Inl (AttributeError (type_name (py_type occurrence)) ''get'')"
  by (simp add: display_main_def py_get_not_dict)

lemma display_main_mapping:
  "map_of kvs ''detail'' = Some (PDict d) \<Longrightarrow>
   display_main rt (PDict kvs) attestation context
     = Inr (PDict [(''description'', PStr description_text),
                   (''tag'', PStr (''Value: '' @ py_str rt (get_or_false d ''passed'')))])"
  by (simp add: display_main_def py_get_dict get_or_false_def)

lemma display_main_absent:
  "map_of kvs ''detail'' = None \<Longrightarrow>
   display_main rt (PDict kvs) attestation context
     = Inr (PDict [(''description'', PStr description_text), (''tag'', PStr ''Value: False'')])"
  by (simp add: display_main_def py_get_dict py_str_def)

lemma display_main_detail_not_dict:
  "map_of kvs ''detail'' = Some x \<Longrightarrow> py_type x \<noteq> TDict \<Longrightarrow>
   display_main rt (PDict kvs) attestation context
     = Inl (AttributeError (type_name (py_type x)) ''get'')"
  by (simp add: display_main_def py_get_dict py_get_not_dict)

lemma py_str_bool: "py_str rt (PBool b) = (if b then ''True'' else ''False'')"
  by (simp add: py_str_def)

text \<open>
  Claim C2: for every occurrence whose \<^verbatim>\<open>detail\<close> is a mapping, every attestation and
  every context, the display mapper returns a mapping with the keys \<^verbatim>\<open>description\<close> and
  \<^verbatim>\<open>tag\<close>, both non-empty strings; the description is the constant text, and the tag is
  \<^verbatim>\<open>Value: True\<close> when \<^verbatim>\<open>detail.passed\<close> is true and \<^verbatim>\<open>Value: False\<close> when it is false or
  absent.
\<close>

theorem display_main_description_tag:
  assumes "map_of kvs ''detail'' = Some (PDict d)"
  shows "\<exists>description tag.
           display_main rt (PDict kvs) a c
             = Inr (PDict [(''description'', PStr description), (''tag'', PStr tag)])
         \<and> description = ''A simple boolean check - the most minimal control possible''
         \<and> description \<noteq> [] \<and> tag \<noteq> []
         \<and> (map_of d ''passed'' = Some (PBool True) \<longrightarrow> tag = ''Value: True'')
         \<and> (map_of d ''passed'' = Some (PBool False) \<or> map_of d ''passed'' = None
              \<longrightarrow> tag = ''Value: False'')"
  using assms
  by (auto simp add: display_main_mapping description_text_def get_or_false_def py_str_bool)

text \<open>Scenarios 2 and 3 of the specification, and a detail without \<^verbatim>\<open>passed\<close>.\<close>

theorem display_main_description_tag_witness:
  "display_main sample_runtime (PDict [(''detail'', PDict [(''passed'', PBool True)])])
       sample_attestation (PDict [])
     = Inr (PDict [(''description'', PStr ''A simple boolean check - the most minimal control possible''),
                   (''tag'', PStr ''Value: True'')])
   \<and> display_main sample_runtime (PDict [(''detail'', PDict [(''passed'', PBool False)])])
       sample_attestation (PDict [])
     = Inr (PDict [(''description'', PStr ''A simple boolean check - the most minimal control possible''),
                   (''tag'', PStr ''Value: False'')])
   \<and> display_main sample_runtime (PDict [(''detail'', PDict [])]) sample_attestation (PDict [])
     = Inr (PDict [(''description'', PStr ''A simple boolean check - the most minimal control possible''),
                   (''tag'', PStr ''Value: False'')])"
  using
    display_main_description_tag [of "[(''detail'', PDict [(''passed'', PBool True)])]"
      "[(''passed'', PBool True)]" sample_runtime sample_attestation "PDict []"]
    display_main_description_tag [of "[(''detail'', PDict [(''passed'', PBool False)])]"
      "[(''passed'', PBool False)]" sample_runtime sample_attestation "PDict []"]
    display_main_description_tag [of "[(''detail'', PDict [])]" "[]" sample_runtime
      sample_attestation "PDict []"]
  by simp

section \<open>The tag\<close>

lemma display_tag_mapping:
  "map_of kvs ''detail'' = Some (PDict d) \<Longrightarrow>
   result_str (display_main rt (PDict kvs) a c) ''tag''
     = Some (''Value: '' @ py_str rt (get_or_false d ''passed''))"
  by (simp add: display_main_mapping result_str_def result_field_def)

lemma display_description_mapping:
  "map_of kvs ''detail'' = Some (PDict d) \<Longrightarrow>
   result_str (display_main rt (PDict kvs) a c) ''description'' = Some description_text"
  by (simp add: display_main_mapping result_str_def result_field_def)

text \<open>
  Claim C4, as stated: for every two occurrences whose mapped detail values differ
  (distinct detail summaries), the tags of the display mapper are not identical. The two
  occurrences of \<^verbatim>\<open>test_description_does_not_change\<close> have the detail summaries
  \<^verbatim>\<open>{total: 10}\<close> and \<^verbatim>\<open>{total: 20}\<close>, and both get the tag \<^verbatim>\<open>Value: False\<close>. The same
  happens to the two distinct mapped details \<^verbatim>\<open>{passed: True}\<close> and \<^verbatim>\<open>{passed: "True"}\<close>,
  which both get \<^verbatim>\<open>Value: True\<close>.
\<close>

theorem display_tag_same_for_distinct_summaries:
  "py_get (occ_total 10) ''detail'' (PDict []) \<noteq> py_get (occ_total 20) ''detail'' (PDict [])
   \<and> result_str (display_main sample_runtime (occ_total 10) sample_attestation (PDict [])) ''tag''
       = Some ''Value: False''
   \<and> result_str (display_main sample_runtime (occ_total 20) sample_attestation (PDict [])) ''tag''
       = Some ''Value: False''
   \<and> PDict [(''passed'', PBool True)] \<noteq> PDict [(''passed'', PStr ''True'')]
   \<and> result_str (display_main sample_runtime (PDict [(''detail'', PDict [(''passed'', PBool True)])])
         sample_attestation (PDict [])) ''tag'' = Some ''Value: True''
   \<and> result_str (display_main sample_runtime (PDict [(''detail'', PDict [(''passed'', PStr ''True'')])])
         sample_attestation (PDict [])) ''tag'' = Some ''Value: True''"
  by (simp add: occ_total_def py_get_def display_tag_mapping get_or_false_def py_str_def)

text \<open>
  Claim C4, amended: the tag is a non-empty string that varies with \<^verbatim>\<open>detail.passed\<close>
  and with nothing else. For every two occurrences whose \<^verbatim>\<open>detail\<close> is a mapping, the two
  tags are identical exactly when the texts \<^verbatim>\<open>str(passed)\<close> of their \<^verbatim>\<open>passed\<close> values
  (false when absent) are identical; when both values are booleans, the tags differ
  exactly when the booleans differ.
\<close>

theorem display_tag_varies_with_passed:
  assumes "map_of kvs1 ''detail'' = Some (PDict d1)"
    and "map_of kvs2 ''detail'' = Some (PDict d2)"
  shows "\<exists>t1 t2.
           result_str (display_main rt (PDict kvs1) a1 c1) ''tag'' = Some t1
         \<and> result_str (display_main rt (PDict kvs2) a2 c2) ''tag'' = Some t2
         \<and> t1 \<noteq> [] \<and> t2 \<noteq> []
         \<and> (t1 = t2 \<longleftrightarrow>
              py_str rt (get_or_false d1 ''passed'') = py_str rt (get_or_false d2 ''passed''))
         \<and> (\<forall>b1 b2. get_or_false d1 ''passed'' = PBool b1 \<and> get_or_false d2 ''passed'' = PBool b2
              \<longrightarrow> (t1 = t2 \<longleftrightarrow> b1 = b2))"
  using assms by (auto simp add: display_tag_mapping py_str_bool)

text \<open>The mapped details of scenarios 2 and 3 get different tags.\<close>

theorem display_tag_varies_with_passed_witness:
  "result_str (display_main sample_runtime (PDict [(''detail'', PDict [(''passed'', PBool True)])])
       sample_attestation (PDict [])) ''tag''
   \<noteq> result_str (display_main sample_runtime (PDict [(''detail'', PDict [(''passed'', PBool False)])])
       sample_attestation (PDict [])) ''tag''"
  using display_tag_varies_with_passed [of "[(''detail'', PDict [(''passed'', PBool True)])]"
      "[(''passed'', PBool True)]" "[(''detail'', PDict [(''passed'', PBool False)])]"
      "[(''passed'', PBool False)]" sample_runtime sample_attestation "PDict []"
      sample_attestation "PDict []"]
  by (auto simp add: get_or_false_def)

section \<open>The description\<close>

text \<open>
  Claim C5: for every two occurrences that differ only in numeric detail fields, every
  attestation and every context, the display mapper returns the same description for
  both, which is the constant text of the control.
\<close>

theorem display_description_stable:
  assumes "differ_only_in_numeric_detail o1 o2"
  shows "result_str (display_main rt o1 a c) ''description''
           = result_str (display_main rt o2 a c) ''description''
         \<and> result_str (display_main rt o1 a c) ''description''
           = Some ''A simple boolean check - the most minimal control possible''"
proof -
  from assms obtain kvs1 kvs2 d1 d2 where
    "o1 = PDict kvs1" "o2 = PDict kvs2"
    "map_of kvs1 ''detail'' = Some (PDict d1)" "map_of kvs2 ''detail'' = Some (PDict d2)"
    by (auto simp add: differ_only_in_numeric_detail_def
        split: pyval.splits option.splits)
  then show ?thesis
    by (simp add: display_description_mapping description_text_def)
qed

text \<open>The two occurrences of \<^verbatim>\<open>TestConsistency.test_description_does_not_change\<close>.\<close>

theorem display_description_stable_witness:
  "occ_total 10 \<noteq> occ_total 20
   \<and> result_str (display_main sample_runtime (occ_total 10) sample_attestation (PDict []))
         ''description''
     = result_str (display_main sample_runtime (occ_total 20) sample_attestation (PDict []))
         ''description''
   \<and> result_str (display_main sample_runtime (occ_total 10) sample_attestation (PDict []))
         ''description''
     = Some ''A simple boolean check - the most minimal control possible''"
proof -
  have "differ_only_in_numeric_detail (occ_total 10) (occ_total 20)"
    by (simp add: differ_only_in_numeric_detail_def occ_total_def is_number_def)
  moreover have "occ_total 10 \<noteq> occ_total 20"
    by (simp add: occ_total_def)
  ultimately show ?thesis
    using display_description_stable [of "occ_total 10" "occ_total 20" sample_runtime
        sample_attestation "PDict []"]
    by blast
qed

section \<open>Determinism and the unused arguments\<close>

text \<open>
  Equality is reflexive on the values of the model, and each mapper as a procedure gives
  the result of the corresponding function and leaves the world it was invoked in.
\<close>

lemma py_eq_list:
  "py_eq (PList xs) (PList ys) =
     (length xs = length ys \<and> list_all (\<lambda>(x, y). py_eq x y) (zip xs ys))"
  by (subst py_eq.simps) simp

lemma py_eq_dict:
  "py_eq (PDict kvs1) (PDict kvs2) =
     (set (map fst kvs1) = set (map fst kvs2) \<and>
      list_all (\<lambda>key.
         (case map_of kvs1 key of
            None \<Rightarrow> False
          | Some v1 \<Rightarrow> (case map_of kvs2 key of None \<Rightarrow> False | Some v2 \<Rightarrow> py_eq v1 v2)))
        (map fst kvs1))"
  by (subst py_eq.simps) simp

lemma py_eq_refl: "py_eq x x"
proof (induction x)
  case (PList xs)
  then show ?case
    by (auto simp add: py_eq_list list_all_iff zip_same)
next
  case (PDict kvs)
  have "case map_of kvs key of None \<Rightarrow> False
        | Some v1 \<Rightarrow> (case map_of kvs key of None \<Rightarrow> False | Some v2 \<Rightarrow> py_eq v1 v2)"
    if "key \<in> fst ` set kvs" for key
  proof -
    from that obtain v where v: "map_of kvs key = Some v"
      by (cases "map_of kvs key") (auto simp add: map_of_eq_None_iff)
    then have "(key, v) \<in> set kvs"
      by (rule map_of_SomeD)
    then have "py_eq v v"
      by (rule PDict.IH) simp
    with v show ?thesis by simp
  qed
  then show ?case
    by (simp add: py_eq_dict list_all_iff)
qed (simp_all add: py_eq.simps)

lemma detail_main_call_eq:
  "detail_main_call occurrence context w = (detail_main occurrence context, w)"
  by (simp add: detail_main_call_def detail_main_def py_bind_def dict_get_def py_return_def
      split: sum.splits)

lemma display_main_call_eq:
  "display_main_call rt occurrence attestation context w
     = (display_main rt occurrence attestation context, w)"
  by (simp add: display_main_call_def display_main_def py_bind_def dict_get_def py_return_def
      split: sum.splits)

lemma test_consistent_output_display:
  "test_consistent_output_for_same_input (display_main_call rt) occurrence attestation w
     = ((case display_main rt occurrence attestation (PDict []) of
           Inl e \<Rightarrow> Inl e | Inr r \<Rightarrow> Inr ()), w)"
  by (simp add: test_consistent_output_for_same_input_def py_bind_def display_main_call_eq
      py_eq_refl py_return_def split: sum.splits)

text \<open>
  The results of the operations on the world vary with it, and an assignment to a global
  changes it: the statements below are not true of every procedure.
\<close>

lemma environment_readers_vary:
  "(\<exists>w1 w2. fst (time_time w1) \<noteq> fst (time_time w2))
   \<and> (\<exists>w1 w2. fst (random_random w1) \<noteq> fst (random_random w2))
   \<and> (\<exists>w1 w2. fst (global_get ''calls'' w1) \<noteq> fst (global_get ''calls'' w2))
   \<and> (\<exists>w. snd (global_set ''calls'' (PInt 1) w) \<noteq> w)"
proof -
  have "fst (time_time world_at_start) \<noteq> fst (time_time world_later)"
    by (simp add: time_time_def world_at_start_def world_later_def)
  moreover have "fst (random_random world_at_start) \<noteq> fst (random_random world_later)"
    by (simp add: random_random_def world_at_start_def world_later_def)
  moreover have "fst (global_get ''calls'' world_at_start) \<noteq> fst (global_get ''calls'' world_later)"
    by (simp add: global_get_def world_at_start_def world_later_def)
  moreover have "snd (global_set ''calls'' (PInt 1) world_at_start) \<noteq> world_at_start"
    by (simp add: global_set_def world_at_start_def)
  ultimately show ?thesis
    by blast
qed

text \<open>
  Claim C6: both mappers are deterministic. For every occurrence, attestation and
  context, two invocations of \<^verbatim>\<open>detail.main\<close> on identical inputs give identical
  outputs, exceptions included, whatever the module globals, the clock and the random
  generator are at either invocation; so do two invocations of \<^verbatim>\<open>display.main\<close>. An
  invocation leaves the world as it found it, so the second of two successive invocations
  gives the output of the first, and \<^verbatim>\<open>test_consistent_output_for_same_input\<close> passes
  on the display mapper for every occurrence on which the mapper returns.
\<close>

theorem mappers_deterministic:
  "fst (detail_main_call occurrence context wa) = fst (detail_main_call occurrence context wb)
   \<and> snd (detail_main_call occurrence context wa) = wa
   \<and> fst (display_main_call rt occurrence attestation context wa)
       = fst (display_main_call rt occurrence attestation context wb)
   \<and> snd (display_main_call rt occurrence attestation context wa) = wa
   \<and> fst (detail_main_call occurrence context (snd (detail_main_call occurrence context wa)))
       = fst (detail_main_call occurrence context wa)
   \<and> fst (display_main_call rt occurrence attestation context
            (snd (display_main_call rt occurrence attestation context wa)))
       = fst (display_main_call rt occurrence attestation context wa)
   \<and> test_consistent_output_for_same_input (display_main_call rt) occurrence attestation wa
       = ((case fst (display_main_call rt occurrence attestation (PDict []) wa) of
             Inl e \<Rightarrow> Inl e | Inr r \<Rightarrow> Inr ()), wa)"
  by (simp add: detail_main_call_eq display_main_call_eq test_consistent_output_display)

text \<open>
  The sample occurrence of the test suite in the two worlds.
\<close>

theorem mappers_deterministic_witness:
  "world_at_start \<noteq> world_later
   \<and> fst (detail_main_call sample_occurrence (PDict []) world_at_start)
       = Inr (PDict [(''passed'', PBool False)])
   \<and> fst (detail_main_call sample_occurrence (PDict []) world_later)
       = Inr (PDict [(''passed'', PBool False)])
   \<and> fst (display_main_call sample_runtime sample_occurrence sample_attestation (PDict [])
            world_at_start)
       = Inr (PDict [(''description'', PStr description_text), (''tag'', PStr ''Value: False'')])
   \<and> fst (display_main_call sample_runtime sample_occurrence sample_attestation (PDict [])
            world_later)
       = Inr (PDict [(''description'', PStr description_text), (''tag'', PStr ''Value: False'')])
   \<and> test_consistent_output_for_same_input (display_main_call sample_runtime) sample_occurrence
         sample_attestation world_later
       = (Inr (), world_later)"
proof -
  have ne: "world_at_start \<noteq> world_later"
    by (simp add: world_at_start_def world_later_def)
  have d: "fst (detail_main_call sample_occurrence (PDict []) world_at_start)
       = Inr (PDict [(''passed'', PBool False)])"
    by (simp add: detail_main_call_eq sample_occurrence_def detail_main_mapping get_or_false_def)
  have s: "fst (display_main_call sample_runtime sample_occurrence sample_attestation (PDict [])
            world_at_start)
       = Inr (PDict [(''description'', PStr description_text), (''tag'', PStr ''Value: False'')])"
    by (simp add: display_main_call_eq sample_occurrence_def display_main_mapping
        get_or_false_def py_str_def)
  show ?thesis
    using mappers_deterministic [of sample_occurrence "PDict []" world_at_start world_later
        sample_runtime sample_attestation]
      mappers_deterministic [of sample_occurrence "PDict []" world_later world_at_start
        sample_runtime sample_attestation]
      ne d s
    by simp
qed

text \<open>
  Claim C9: the results of the mappers depend on the occurrence only. The detail mapper
  returns the same result for any two contexts, and the display mapper for any two
  attestations and any two contexts, null included.
\<close>

theorem mappers_ignore_context_and_attestation:
  "detail_main occurrence c1 = detail_main occurrence c2
   \<and> display_main rt occurrence a1 c1 = display_main rt occurrence a2 c2"
  by (simp add: detail_main_def display_main_def)

text \<open>
  An empty and a null context, and the attestation of \<^verbatim>\<open>conftest.py\<close> (result \<^verbatim>\<open>pass\<close>)
  against the one of \<^verbatim>\<open>test_display.py\<close> (result \<^verbatim>\<open>fail\<close>).
\<close>

theorem mappers_ignore_context_and_attestation_witness:
  "detail_main sample_occurrence (PDict []) = detail_main sample_occurrence PNone
   \<and> display_main sample_runtime sample_occurrence conftest_sample_attestation (PDict [])
     = display_main sample_runtime sample_occurrence sample_attestation PNone"
  using mappers_ignore_context_and_attestation [of sample_occurrence "PDict []" PNone
      sample_runtime conftest_sample_attestation sample_attestation]
  by blast

section \<open>The keys of the detail mapper's result\<close>

lemma detail_main_result:
  assumes "detail_main occurrence context = Inr result"
  shows "\<exists>v. result = PDict [(''passed'', v)]"
  using assms
  by (auto simp add: detail_main_def split: sum.splits)

text \<open>
  Claim C8: whenever the detail mapper returns, its result has exactly the one key
  \<^verbatim>\<open>passed\<close> and no key \<^verbatim>\<open>summary\<close>; so the structural check
  \<^verbatim>\<open>test_returns_summary_field\<close>, which asserts \<^verbatim>\<open>'summary' in result\<close>, passes on no
  occurrence when run on the quickstart detail mapper.
\<close>

theorem detail_main_only_passed:
  "(detail_main occurrence context = Inr result \<longrightarrow>
      (\<exists>v. result = PDict [(''passed'', v)])
      \<and> result_keys (Inr result) = [''passed'']
      \<and> ''summary'' \<notin> set (result_keys (Inr result))
      \<and> py_in ''summary'' result = Inr False)
   \<and> test_returns_summary_field detail_main occurrence \<noteq> Inr ()"
proof -
  have a: "(\<exists>v. result = PDict [(''passed'', v)])
      \<and> result_keys (Inr result) = [''passed'']
      \<and> ''summary'' \<notin> set (result_keys (Inr result))
      \<and> py_in ''summary'' result = Inr False"
    if "detail_main occurrence context = Inr result"
    using detail_main_result [OF that]
    by (auto simp add: result_keys_def py_in_def)
  have b: "test_returns_summary_field detail_main occurrence \<noteq> Inr ()"
  proof (cases "detail_main occurrence (PDict [])")
    case (Inl e)
    then show ?thesis
      by (simp add: test_returns_summary_field_def)
  next
    case (Inr r)
    from detail_main_result [OF this] obtain v where "r = PDict [(''passed'', v)]" ..
    with Inr show ?thesis
      by (simp add: test_returns_summary_field_def py_in_def)
  qed
  from a b show ?thesis by blast
qed

text \<open>The fallback value of the fixture \<^verbatim>\<open>sample_occurrence\<close>.\<close>

theorem detail_main_only_passed_witness:
  "detail_main sample_occurrence (PDict []) = Inr (PDict [(''passed'', PBool False)])
   \<and> result_keys (detail_main sample_occurrence (PDict [])) = [''passed'']
   \<and> test_returns_summary_field detail_main sample_occurrence \<noteq> Inr ()"
proof -
  have "detail_main sample_occurrence (PDict []) = Inr (PDict [(''passed'', PBool False)])"
    by (simp add: sample_occurrence_def detail_main_mapping get_or_false_def)
  then show ?thesis
    using detail_main_only_passed [of sample_occurrence "PDict []"
        "PDict [(''passed'', PBool False)]"]
    by simp
qed

section \<open>The corpus check and the integration check\<close>

lemma test_all_payloads_stops:
  assumes "list_all (\<lambda>(f, p). check_payload m f p = Inr ()) pre"
    and "check_payload m filename payload = Inl e"
  shows "test_all_payloads_process_successfully m (pre @ (filename, payload) # post) = Inl e"
  using assms by (induction pre) auto

lemma test_all_payloads_passes:
  "test_all_payloads_process_successfully m fixtures = Inr ()
   \<longleftrightarrow> list_all (\<lambda>(f, p). check_payload m f p = Inr ()) fixtures"
  by (induction fixtures) (auto split: sum.splits)

lemma test_display_stops:
  assumes "list_all (\<lambda>p. check_integration dm sm p att = Inr ()) pre"
    and "check_integration dm sm payload att = Inl e"
  shows "test_display_works_with_detail_output dm sm (pre @ payload # post) att = Inl e"
  using assms by (induction pre) auto

lemma test_display_passes:
  "test_display_works_with_detail_output dm sm payloads att = Inr ()
   \<longleftrightarrow> list_all (\<lambda>p. check_integration dm sm p att = Inr ()) payloads"
  by (induction payloads) (auto split: sum.splits)

lemma check_payload_names:
  assumes "process_payload m filename payload = Inl cause" and "is_Exception cause"
  shows "check_payload m filename payload
           = Inl (Failed (filename @ '': Failed to process: '' @ exn_str cause))"
    and "report_names (check_payload m filename payload) filename"
  using assms by (simp_all add: check_payload_def report_names_def)

text \<open>
  Claim C7, as stated: the report of the corpus check and of the integration check
  names every offending fixture, never only the first. Run on the quickstart detail
  mapper, both payload files below fail the corpus check (neither result has a
  \<^verbatim>\<open>summary\<close>), and the report is the failure of \<^verbatim>\<open>occ_case_1.json\<close> alone: the text
  \<^verbatim>\<open>occ_case_2.json\<close> does not occur in it. The integration check, run on two payloads
  that both fail, ends with the detail mapper's exception for the first, which names no
  fixture at all.
\<close>

theorem corpus_check_reports_first_failure_only:
  "process_payload detail_main ''occ_case_1.json''
       (PDict [(''detail'', PDict [(''check_passed'', PBool True)])])
     = Inl (AssertionError ''occ_case_1.json: Should have summary'')
   \<and> process_payload detail_main ''occ_case_2.json'' (PDict [(''detail'', PDict [])])
     = Inl (AssertionError ''occ_case_2.json: Should have summary'')
   \<and> test_all_payloads_process_successfully detail_main corpus_fixtures
     = Inl (Failed ''occ_case_1.json: Failed to process: occ_case_1.json: Should have summary'')
   \<and> \<not> report_names (test_all_payloads_process_successfully detail_main corpus_fixtures)
         ''occ_case_2.json''
   \<and> test_display_works_with_detail_output detail_main (display_main sample_runtime)
         [PDict [(''detail'', PNone)], PNone] sample_attestation
     = Inl (AttributeError ''NoneType'' ''get'')"
proof -
  have p1: "process_payload detail_main ''occ_case_1.json''
       (PDict [(''detail'', PDict [(''check_passed'', PBool True)])])
     = Inl (AssertionError ''occ_case_1.json: Should have summary'')"
    by (simp add: process_payload_def detail_main_mapping py_in_def)
  have p2: "process_payload detail_main ''occ_case_2.json'' (PDict [(''detail'', PDict [])])
     = Inl (AssertionError ''occ_case_2.json: Should have summary'')"
    by (simp add: process_payload_def detail_main_mapping py_in_def)
  have t: "test_all_payloads_process_successfully detail_main corpus_fixtures
     = Inl (Failed ''occ_case_1.json: Failed to process: occ_case_1.json: Should have summary'')"
    by (simp add: corpus_fixtures_def check_payload_def p1)
  have n: "\<not> sublist ''occ_case_2.json''
      ''occ_case_1.json: Failed to process: occ_case_1.json: Should have summary''"
    by code_simp
  have i: "test_display_works_with_detail_output detail_main (display_main sample_runtime)
         [PDict [(''detail'', PNone)], PNone] sample_attestation
     = Inl (AttributeError ''NoneType'' ''get'')"
    by (simp add: check_integration_def detail_main_def py_get_def)
  from p1 p2 t n i show ?thesis
    by (simp add: report_names_def)
qed

text \<open>
  Claim C7, amended: each of the two checks stops at the first fixture that fails. When
  the fixtures before a fixture pass and processing that fixture raises an exception, the
  report of the corpus check is the one failure
  \<^verbatim>\<open><file>: Failed to process: <error>\<close>, which names that file, whatever fixtures
  follow; the report of the integration check is the failure of its first failing
  payload, which is \<^verbatim>\<open>Display mapper failed with detail output: <error>\<close> when the display
  stage raised, a text without a fixture name. A check passes exactly when every fixture
  passes.
\<close>

theorem checks_stop_at_first_failure:
  "(list_all (\<lambda>(f, p). check_payload m f p = Inr ()) pre
      \<and> process_payload m filename payload = Inl cause \<and> is_Exception cause
    \<longrightarrow> test_all_payloads_process_successfully m (pre @ (filename, payload) # post)
          = Inl (Failed (filename @ '': Failed to process: '' @ exn_str cause))
        \<and> report_names
            (test_all_payloads_process_successfully m (pre @ (filename, payload) # post))
            filename)
   \<and> (test_all_payloads_process_successfully m fixtures = Inr ()
        \<longleftrightarrow> list_all (\<lambda>(f, p). check_payload m f p = Inr ()) fixtures)
   \<and> (list_all (\<lambda>p. check_integration dm sm p att = Inr ()) before
      \<and> check_integration dm sm item att = Inl e
    \<longrightarrow> test_display_works_with_detail_output dm sm (before @ item # after) att = Inl e)
   \<and> (test_display_works_with_detail_output dm sm payloads att = Inr ()
        \<longleftrightarrow> list_all (\<lambda>p. check_integration dm sm p att = Inr ()) payloads)
   \<and> (dm item (PDict []) = Inr mapped \<and> splice_detail item mapped = Inr occ
      \<and> display_checks sm occ att = Inl c \<and> is_Exception c
    \<longrightarrow> check_integration dm sm item att
          = Inl (Failed (''Display mapper failed with detail output: '' @ exn_str c)))"
proof -
  have d: "check_integration dm sm item att
          = Inl (Failed (''Display mapper failed with detail output: '' @ exn_str c))"
    if "dm item (PDict []) = Inr mapped" and "splice_detail item mapped = Inr occ"
      and "display_checks sm occ att = Inl c" and "is_Exception c"
    using that by (simp add: check_integration_def)
  have "test_all_payloads_process_successfully m (pre @ (filename, payload) # post)
          = Inl (Failed (filename @ '': Failed to process: '' @ exn_str cause))
        \<and> report_names
            (test_all_payloads_process_successfully m (pre @ (filename, payload) # post))
            filename"
    if "list_all (\<lambda>(f, p). check_payload m f p = Inr ()) pre"
      and "process_payload m filename payload = Inl cause" and "is_Exception cause"
    using test_all_payloads_stops [OF that(1) check_payload_names(1) [OF that(2,3)]]
      check_payload_names(2) [OF that(2,3)] check_payload_names(1) [OF that(2,3)]
    by simp
  with d show ?thesis
    using test_all_payloads_passes test_display_stops test_display_passes
    by blast
qed

text \<open>
  The corpus check on the two payload files, and the integration check with a display
  mapper that returns \<^verbatim>\<open>None\<close>.
\<close>

theorem checks_stop_at_first_failure_witness:
  "test_all_payloads_process_successfully detail_main
       ([] @ (''occ_case_1.json'', PDict [(''detail'', PDict [(''check_passed'', PBool True)])])
          # [(''occ_case_2.json'', PDict [(''detail'', PDict [])])])
     = Inl (Failed (''occ_case_1.json'' @ '': Failed to process: ''
          @ exn_str (AssertionError ''occ_case_1.json: Should have summary'')))
   \<and> test_display_works_with_detail_output detail_main (\<lambda>occurrence attestation context. Inr PNone)
       ([] @ PDict [(''detail'', PDict [])] # [PNone])
       sample_attestation
     = Inl (Failed (''Display mapper failed with detail output: '' @ exn_str (AssertionError [])))"
proof -
  have p1: "process_payload detail_main ''occ_case_1.json''
       (PDict [(''detail'', PDict [(''check_passed'', PBool True)])])
     = Inl (AssertionError ''occ_case_1.json: Should have summary'')"
    by (simp add: process_payload_def detail_main_mapping py_in_def)
  have m: "detail_main (PDict [(''detail'', PDict [])]) (PDict [])
      = Inr (PDict [(''passed'', PBool False)])"
    by (simp add: detail_main_mapping get_or_false_def)
  have s: "splice_detail (PDict [(''detail'', PDict [])]) (PDict [(''passed'', PBool False)])
      = Inr (PDict [(''detail'', PDict [(''passed'', PBool False)])])"
    by (simp add: splice_detail_def)
  have c: "display_checks (\<lambda>occurrence attestation context. Inr PNone)
      (PDict [(''detail'', PDict [(''passed'', PBool False)])]) sample_attestation
      = Inl (AssertionError [])"
    by (simp add: display_checks_def)
  have bad: "check_integration detail_main (\<lambda>occurrence attestation context. Inr PNone)
      (PDict [(''detail'', PDict [])]) sample_attestation
      = Inl (Failed (''Display mapper failed with detail output: '' @ exn_str (AssertionError [])))"
    using checks_stop_at_first_failure [where dm = detail_main
        and sm = "\<lambda>occurrence attestation context. Inr PNone"
        and att = sample_attestation
        and item = "PDict [(''detail'', PDict [])]"
        and mapped = "PDict [(''passed'', PBool False)]"
        and occ = "PDict [(''detail'', PDict [(''passed'', PBool False)])]"
        and c = "AssertionError []"] m s c
    by simp
  show ?thesis
    using checks_stop_at_first_failure [where m = detail_main and pre = "[]"
        and filename = "''occ_case_1.json''"
        and payload = "PDict [(''detail'', PDict [(''check_passed'', PBool True)])]"
        and cause = "AssertionError ''occ_case_1.json: Should have summary''"
        and post = "[(''occ_case_2.json'', PDict [(''detail'', PDict [])])]"
        and dm = detail_main and sm = "\<lambda>occurrence attestation context. Inr PNone"
        and att = sample_attestation
        and before = "[]"
        and item = "PDict [(''detail'', PDict [])]"
        and e = "Failed (''Display mapper failed with detail output: '' @ exn_str (AssertionError []))"
        and after = "[PNone]"]
      p1 bad
    by simp
qed

section \<open>Emptiness and paths of the structural diff\<close>

text \<open>
  The result of \<^verbatim>\<open>_diff\<close> is the lines of its differences joined by newlines; every
  line is non-empty and starts with the path it was found at.
\<close>

subsection \<open>Joined lines\<close>

lemma join_Cons_prefix: "prefix d (join sep (d # ds))"
  by (cases ds) simp_all

lemma join_hd_prefix: "ls \<noteq> [] \<Longrightarrow> prefix (hd ls) (join sep ls)"
  by (cases ls) (simp_all add: join_Cons_prefix)

lemma join_nonempty:
  assumes "ls \<noteq> []" and "\<forall>d \<in> set ls. d \<noteq> []"
  shows "join sep ls \<noteq> []"
proof -
  from assms have "hd ls \<noteq> []"
    by (cases ls) simp_all
  with join_hd_prefix [OF assms(1), of sep] show ?thesis
    by auto
qed

lemma diffs_empty_iff:
  assumes "\<And>x. x \<in> set xs \<Longrightarrow> \<forall>d \<in> set (f x). d \<noteq> []"
  shows "(let diffs = concat (map f xs) in if diffs \<noteq> [] then join sep diffs else []) = []
         \<longleftrightarrow> (\<forall>x \<in> set xs. f x = [])"
proof -
  have "\<forall>d \<in> set (concat (map f xs)). d \<noteq> []"
    using assms by auto
  then have "concat (map f xs) \<noteq> [] \<Longrightarrow> join sep (concat (map f xs)) \<noteq> []"
    by (rule join_nonempty [rotated])
  then show ?thesis
    by (auto simp add: Let_def)
qed

lemma concat_map_first:
  "concat (map f xs) \<noteq> [] \<Longrightarrow> \<exists>x \<in> set xs. f x \<noteq> [] \<and> hd (concat (map f xs)) = hd (f x)"
proof (induction xs)
  case Nil
  then show ?case by simp
next
  case (Cons a xs)
  show ?case
  proof (cases "f a = []")
    case True
    with Cons show ?thesis by auto
  next
    case False
    then show ?thesis by auto
  qed
qed

lemma diffs_first:
  assumes "(let diffs = concat (map f xs) in if diffs \<noteq> [] then join sep diffs else []) \<noteq> []"
  shows "\<exists>x \<in> set xs. f x \<noteq> [] \<and>
           prefix (hd (f x))
             (let diffs = concat (map f xs) in if diffs \<noteq> [] then join sep diffs else [])"
proof -
  from assms have ne: "concat (map f xs) \<noteq> []"
    by (auto simp add: Let_def split: if_splits)
  from concat_map_first [OF this] obtain x where
    "x \<in> set xs" "f x \<noteq> []" "hd (concat (map f xs)) = hd (f x)"
    by blast
  with join_hd_prefix [OF ne, of sep] ne show ?thesis
    by (auto simp add: Let_def)
qed

subsection \<open>The cases of the helper\<close>

lemma json_diff_type_mismatch:
  "py_type a \<noteq> py_type b \<Longrightarrow>
   json_diff rt a b path
     = path @ '': Type mismatch '' @ type_name (py_type a) @ '' vs '' @ type_name (py_type b)"
  by (simp add: json_diff.simps)

lemma json_diff_dict:
  "json_diff rt (PDict kvs1) (PDict kvs2) path =
     (let diffs = concat (map (\<lambda>key.
                    (case map_of kvs1 key of
                       None \<Rightarrow> [path @ ''.'' @ key @ '': Missing in first object'']
                     | Some v1 \<Rightarrow>
                         (case map_of kvs2 key of
                            None \<Rightarrow> [path @ ''.'' @ key @ '': Missing in second object'']
                          | Some v2 \<Rightarrow>
                              (if json_diff rt v1 v2 (path @ ''.'' @ key) \<noteq> []
                               then [json_diff rt v1 v2 (path @ ''.'' @ key)] else []))))
                  (set_iter rt (map fst kvs1 @ map fst kvs2)))
      in if diffs \<noteq> [] then join [CHR 0x0A] diffs else [])"
  by (subst json_diff.simps) (simp add: Let_def cong: option.case_cong if_cong)

lemma json_diff_list:
  "json_diff rt (PList xs) (PList ys) path =
     (if length xs \<noteq> length ys then
        path @ '': List length mismatch '' @ string_of_nat (length xs) @ '' vs ''
          @ string_of_nat (length ys)
      else
        (let diffs = concat (map (\<lambda>(i, item1, item2).
                       (if json_diff rt item1 item2 (path @ ''['' @ string_of_nat i @ '']'') \<noteq> []
                        then [json_diff rt item1 item2 (path @ ''['' @ string_of_nat i @ '']'')]
                        else []))
                     (enumerate 0 (zip xs ys)))
         in if diffs \<noteq> [] then join [CHR 0x0A] diffs else []))"
  by (subst json_diff.simps) (simp add: Let_def cong: if_cong)

lemma json_diff_scalar:
  "py_type a = py_type b \<Longrightarrow> py_type a \<noteq> TDict \<Longrightarrow> py_type a \<noteq> TList \<Longrightarrow>
   json_diff rt a b path =
     (if a \<noteq> b then path @ '': Value mismatch '' @ py_repr rt a @ '' vs '' @ py_repr rt b
      else [])"
  by (subst json_diff.simps) (cases a; cases b; simp)

lemma struct_eq_type: "struct_eq a b \<Longrightarrow> py_type a = py_type b"
  by (subst (asm) struct_eq.simps) simp

lemma struct_eq_dict:
  "struct_eq (PDict kvs1) (PDict kvs2) =
     (set (map fst kvs1) = set (map fst kvs2) \<and>
      list_all (\<lambda>key.
         (case map_of kvs1 key of
            None \<Rightarrow> False
          | Some v1 \<Rightarrow> (case map_of kvs2 key of None \<Rightarrow> False | Some v2 \<Rightarrow> struct_eq v1 v2)))
        (map fst kvs1))"
  by (subst struct_eq.simps) simp

lemma struct_eq_list:
  "struct_eq (PList xs) (PList ys) =
     (length xs = length ys \<and> list_all (\<lambda>(x, y). struct_eq x y) (zip xs ys))"
  by (subst struct_eq.simps) simp

lemma struct_eq_scalar:
  "py_type a \<noteq> TDict \<Longrightarrow> py_type a \<noteq> TList \<Longrightarrow> struct_eq a b = (a = b)"
  by (subst struct_eq.simps) (cases a; cases b; auto)

subsection \<open>Emptiness of the result\<close>

lemma set_enumerate_snd: "snd ` set (enumerate n zs) = set zs"
proof -
  have "snd ` set (enumerate n zs) = set (map snd (enumerate n zs))"
    by (simp only: set_map)
  also have "\<dots> = set zs"
    by (simp only: map_snd_enumerate)
  finally show ?thesis .
qed

lemma struct_eq_refl: "struct_eq x x"
proof (induction x)
  case (PList xs)
  then show ?case
    by (auto simp add: struct_eq_list list_all_iff zip_same)
next
  case (PDict kvs)
  have "case map_of kvs key of None \<Rightarrow> False
        | Some v1 \<Rightarrow> (case map_of kvs key of None \<Rightarrow> False | Some v2 \<Rightarrow> struct_eq v1 v2)"
    if "key \<in> fst ` set kvs" for key
  proof -
    from that obtain v where v: "map_of kvs key = Some v"
      by (cases "map_of kvs key") (auto simp add: map_of_eq_None_iff)
    then have "(key, v) \<in> set kvs"
      by (rule map_of_SomeD)
    then have "struct_eq v v"
      by (rule PDict.IH) simp
    with v show ?thesis by simp
  qed
  then show ?case
    by (simp add: struct_eq_dict list_all_iff)
qed (simp_all add: struct_eq_scalar)

lemma json_diff_empty_scalar:
  assumes "py_type a \<noteq> TDict" and "py_type a \<noteq> TList"
  shows "json_diff rt a b path = [] \<longleftrightarrow> struct_eq a b"
proof (cases "py_type a = py_type b")
  case True
  with assms show ?thesis
    by (simp add: json_diff_scalar struct_eq_scalar)
next
  case False
  then show ?thesis
    by (auto simp add: json_diff_type_mismatch dest: struct_eq_type)
qed

lemma json_diff_empty_iff:
  assumes iter: "\<And>ks. set (set_iter rt ks) = set ks"
  shows "json_diff rt a b path = [] \<longleftrightarrow> struct_eq a b"
proof (induction a arbitrary: b path)
  case (PList xs)
  show ?case
  proof (cases b)
    case (PList ys)
    show ?thesis
    proof (cases "length xs = length ys")
      case False
      then show ?thesis
        by (simp add: PList json_diff_list struct_eq_list)
    next
      case True
      have "(\<forall>x \<in> set (enumerate 0 (zip xs ys)).
               (case x of (i, item1, item2) \<Rightarrow>
                  if json_diff rt item1 item2 (path @ ''['' @ string_of_nat i @ '']'') \<noteq> []
                  then [json_diff rt item1 item2 (path @ ''['' @ string_of_nat i @ '']'')]
                  else []) = [])
            \<longleftrightarrow> (\<forall>(x, y) \<in> set (zip xs ys). struct_eq x y)"
        (is "?L \<longleftrightarrow> ?R")
      proof
        assume l: ?L
        show ?R
        proof (clarify)
          fix x y
          assume xy: "(x, y) \<in> set (zip xs ys)"
          then have "(x, y) \<in> snd ` set (enumerate 0 (zip xs ys))"
            by (simp only: set_enumerate_snd)
          then obtain i where "(i, x, y) \<in> set (enumerate 0 (zip xs ys))"
            by force
          with l have "json_diff rt x y (path @ ''['' @ string_of_nat i @ '']'') = []"
            by (auto split: if_splits)
          moreover from xy have "x \<in> set xs"
            by (rule set_zip_leftD)
          ultimately show "struct_eq x y"
            by (simp add: PList.IH)
        qed
      next
        assume r: ?R
        show ?L
        proof (clarify)
          fix i x y
          assume "(i, x, y) \<in> set (enumerate 0 (zip xs ys))"
          then have "(x, y) \<in> snd ` set (enumerate 0 (zip xs ys))"
            by force
          then have xy: "(x, y) \<in> set (zip xs ys)"
            by (simp only: set_enumerate_snd)
          with r have "struct_eq x y"
            by auto
          moreover from xy have "x \<in> set xs"
            by (rule set_zip_leftD)
          ultimately have "json_diff rt x y (path @ ''['' @ string_of_nat i @ '']'') = []"
            by (simp add: PList.IH)
          then show "(if json_diff rt x y (path @ ''['' @ string_of_nat i @ '']'') \<noteq> []
                  then [json_diff rt x y (path @ ''['' @ string_of_nat i @ '']'')]
                  else []) = []"
            by simp
        qed
      qed
      moreover have "json_diff rt (PList xs) (PList ys) path = []
            \<longleftrightarrow> (\<forall>x \<in> set (enumerate 0 (zip xs ys)).
               (case x of (i, item1, item2) \<Rightarrow>
                  if json_diff rt item1 item2 (path @ ''['' @ string_of_nat i @ '']'') \<noteq> []
                  then [json_diff rt item1 item2 (path @ ''['' @ string_of_nat i @ '']'')]
                  else []) = [])"
        unfolding json_diff_list using True
        by (simp only: simp_thms if_False) (rule diffs_empty_iff, auto)
      ultimately show ?thesis
        using True by (simp add: PList struct_eq_list list_all_iff)
    qed
  qed (auto simp add: json_diff_type_mismatch dest: struct_eq_type)
next
  case (PDict kvs1)
  show ?case
  proof (cases b)
    case (PDict kvs2)
    let ?f = "\<lambda>key.
                    (case map_of kvs1 key of
                       None \<Rightarrow> [path @ ''.'' @ key @ '': Missing in first object'']
                     | Some v1 \<Rightarrow>
                         (case map_of kvs2 key of
                            None \<Rightarrow> [path @ ''.'' @ key @ '': Missing in second object'']
                          | Some v2 \<Rightarrow>
                              (if json_diff rt v1 v2 (path @ ''.'' @ key) \<noteq> []
                               then [json_diff rt v1 v2 (path @ ''.'' @ key)] else [])))"
    have f: "?f key = [] \<longleftrightarrow>
               (\<exists>v1 v2. map_of kvs1 key = Some v1 \<and> map_of kvs2 key = Some v2 \<and> struct_eq v1 v2)"
      for key
    proof (cases "map_of kvs1 key")
      case None
      then show ?thesis by simp
    next
      case (Some v1)
      then have "(key, v1) \<in> set kvs1"
        by (rule map_of_SomeD)
      then have "json_diff rt v1 v2 p = [] \<longleftrightarrow> struct_eq v1 v2" for v2 p
        by (rule PDict.IH) simp
      with Some show ?thesis
        by (cases "map_of kvs2 key") simp_all
    qed
    have "json_diff rt (PDict kvs1) (PDict kvs2) path = []
            \<longleftrightarrow> (\<forall>key \<in> set (set_iter rt (map fst kvs1 @ map fst kvs2)). ?f key = [])"
      unfolding json_diff_dict
      by (rule diffs_empty_iff) (auto split: option.splits)
    also have "\<dots> \<longleftrightarrow> (\<forall>key \<in> fst ` set kvs1 \<union> fst ` set kvs2.
               \<exists>v1 v2. map_of kvs1 key = Some v1 \<and> map_of kvs2 key = Some v2 \<and> struct_eq v1 v2)"
      by (simp only: iter f) simp
    also have "\<dots> \<longleftrightarrow> struct_eq (PDict kvs1) (PDict kvs2)"
    proof
      assume l: "\<forall>key \<in> fst ` set kvs1 \<union> fst ` set kvs2.
               \<exists>v1 v2. map_of kvs1 key = Some v1 \<and> map_of kvs2 key = Some v2 \<and> struct_eq v1 v2"
      have "key \<in> fst ` set kvs1 \<and> key \<in> fst ` set kvs2"
        if "key \<in> fst ` set kvs1 \<union> fst ` set kvs2" for key
      proof -
        from l that obtain v1 v2 where
          "map_of kvs1 key = Some v1" "map_of kvs2 key = Some v2"
          by blast
        then have "(key, v1) \<in> set kvs1" "(key, v2) \<in> set kvs2"
          by (auto dest: map_of_SomeD)
        then show ?thesis by force
      qed
      then have "fst ` set kvs1 = fst ` set kvs2"
        by blast
      with l show "struct_eq (PDict kvs1) (PDict kvs2)"
        by (auto simp add: struct_eq_dict list_all_iff)
    next
      assume "struct_eq (PDict kvs1) (PDict kvs2)"
      then have se: "set (map fst kvs1) = set (map fst kvs2) \<and>
          list_all (\<lambda>key.
             (case map_of kvs1 key of
                None \<Rightarrow> False
              | Some v1 \<Rightarrow> (case map_of kvs2 key of None \<Rightarrow> False | Some v2 \<Rightarrow> struct_eq v1 v2)))
            (map fst kvs1)"
        by (simp only: struct_eq_dict)
      from se have keys: "fst ` set kvs1 = fst ` set kvs2"
        by simp
      from se have vals: "\<forall>key \<in> fst ` set kvs1.
          (case map_of kvs1 key of
             None \<Rightarrow> False
           | Some v1 \<Rightarrow> (case map_of kvs2 key of None \<Rightarrow> False | Some v2 \<Rightarrow> struct_eq v1 v2))"
        by (simp only: list_all_iff set_map) blast
      show "\<forall>key \<in> fst ` set kvs1 \<union> fst ` set kvs2.
               \<exists>v1 v2. map_of kvs1 key = Some v1 \<and> map_of kvs2 key = Some v2 \<and> struct_eq v1 v2"
      proof
        fix key
        assume "key \<in> fst ` set kvs1 \<union> fst ` set kvs2"
        with keys have "key \<in> fst ` set kvs1"
          by blast
        with vals have
          "case map_of kvs1 key of
             None \<Rightarrow> False
           | Some v1 \<Rightarrow> (case map_of kvs2 key of None \<Rightarrow> False | Some v2 \<Rightarrow> struct_eq v1 v2)"
          by blast
        then show "\<exists>v1 v2. map_of kvs1 key = Some v1 \<and> map_of kvs2 key = Some v2 \<and> struct_eq v1 v2"
          by (auto split: option.splits)
      qed
    qed
    finally show ?thesis
      by (simp add: PDict)
  qed (auto simp add: json_diff_type_mismatch dest: struct_eq_type)
qed (simp_all add: json_diff_empty_scalar)

subsection \<open>The path a result names\<close>

lemma differ_here_scalar:
  "py_type a = py_type b \<Longrightarrow> py_type a \<noteq> TDict \<Longrightarrow> py_type a \<noteq> TList \<Longrightarrow>
   differ_here a b = (a \<noteq> b)"
  by (cases a; cases b; simp add: differ_here_def)

lemma names_root:
  assumes "differ_here a b" and "prefix (path @ '': '') (json_diff rt a b path)"
  shows "\<exists>p. differ_at a b p \<and> prefix (path @ render_path p @ '': '') (json_diff rt a b path)"
  using assms by (intro exI [of _ "[]"]) (simp add: differ_at_def render_path_def)

lemma names_type_mismatch:
  assumes "py_type a \<noteq> py_type b"
  shows "\<exists>p. differ_at a b p \<and> prefix (path @ render_path p @ '': '') (json_diff rt a b path)"
  using assms
  by (intro names_root) (simp_all add: differ_here_def json_diff_type_mismatch)

lemma names_scalar:
  assumes "py_type a \<noteq> TDict" and "py_type a \<noteq> TList" and "json_diff rt a b path \<noteq> []"
  shows "\<exists>p. differ_at a b p \<and> prefix (path @ render_path p @ '': '') (json_diff rt a b path)"
proof (cases "py_type a = py_type b")
  case False
  then show ?thesis by (rule names_type_mismatch)
next
  case True
  with assms have "a \<noteq> b"
    by (auto simp add: json_diff_scalar)
  with True assms(1,2) show ?thesis
    by (intro names_root) (simp_all add: differ_here_scalar json_diff_scalar)
qed

lemma differ_at_Key:
  "map_of kvs1 key = Some v1 \<Longrightarrow> map_of kvs2 key = Some v2 \<Longrightarrow>
   differ_at (PDict kvs1) (PDict kvs2) (Key key # p) = differ_at v1 v2 p"
  by (simp add: differ_at_def)

lemma differ_at_Index:
  "i < length xs \<Longrightarrow> i < length ys \<Longrightarrow>
   differ_at (PList xs) (PList ys) (Index i # p) = differ_at (xs ! i) (ys ! i) p"
  by (simp add: differ_at_def)

lemma json_diff_names_path:
  assumes iter: "\<And>ks. set (set_iter rt ks) = set ks"
  shows "json_diff rt a b path \<noteq> [] \<Longrightarrow>
         \<exists>p. differ_at a b p \<and> prefix (path @ render_path p @ '': '') (json_diff rt a b path)"
proof (induction a arbitrary: b path)
  case (PList xs)
  show ?case
  proof (cases b)
    case b: (PList ys)
    show ?thesis
    proof (cases "length xs = length ys")
      case False
      then show ?thesis
        unfolding b by (intro names_root) (simp_all add: differ_here_def json_diff_list)
    next
      case True
      let ?f = "\<lambda>(i, item1, item2).
                  if json_diff rt item1 item2 (path @ ''['' @ string_of_nat i @ '']'') \<noteq> []
                  then [json_diff rt item1 item2 (path @ ''['' @ string_of_nat i @ '']'')]
                  else []"
      let ?r = "let diffs = concat (map ?f (enumerate 0 (zip xs ys)))
                in if diffs \<noteq> [] then join [CHR 0x0A] diffs else []"
      have r: "json_diff rt (PList xs) (PList ys) path = ?r"
        unfolding json_diff_list using True by (simp only: simp_thms if_False)
      with PList.prems b have "?r \<noteq> []"
        by simp
      from diffs_first [OF this] obtain x where
        x: "x \<in> set (enumerate 0 (zip xs ys))" "?f x \<noteq> []" "prefix (hd (?f x)) ?r"
        by blast
      obtain i item1 item2 where xi: "x = (i, item1, item2)"
        by (cases x) auto
      let ?d = "json_diff rt item1 item2 (path @ ''['' @ string_of_nat i @ '']'')"
      from x(2) xi have d: "?d \<noteq> []" and hd: "hd (?f x) = ?d"
        by (auto split: if_splits)
      from x(1) xi have i: "i < length xs" "i < length ys" "xs ! i = item1" "ys ! i = item2"
        by (auto simp add: in_set_enumerate_eq)
      then have "item1 \<in> set xs"
        by auto
      from PList.IH [OF this d] obtain p where
        p: "differ_at item1 item2 p"
           "prefix ((path @ ''['' @ string_of_nat i @ '']'') @ render_path p @ '': '') ?d"
        by blast
      from p(1) i have "differ_at (PList xs) (PList ys) (Index i # p)"
        by (simp add: differ_at_Index)
      moreover have "prefix (path @ render_path (Index i # p) @ '': '')
              (json_diff rt (PList xs) (PList ys) path)"
      proof -
        from p(2) hd have "prefix (path @ render_path (Index i # p) @ '': '') (hd (?f x))"
          by (simp add: render_path_def)
        then have "prefix (path @ render_path (Index i # p) @ '': '') ?r"
          using x(3) by (rule prefix_order.trans)
        then show ?thesis
          unfolding r .
      qed
      ultimately show ?thesis
        unfolding b by blast
    qed
  qed (simp_all add: names_type_mismatch)
next
  case (PDict kvs1)
  show ?case
  proof (cases b)
    case b: (PDict kvs2)
    let ?f = "\<lambda>key.
                    (case map_of kvs1 key of
                       None \<Rightarrow> [path @ ''.'' @ key @ '': Missing in first object'']
                     | Some v1 \<Rightarrow>
                         (case map_of kvs2 key of
                            None \<Rightarrow> [path @ ''.'' @ key @ '': Missing in second object'']
                          | Some v2 \<Rightarrow>
                              (if json_diff rt v1 v2 (path @ ''.'' @ key) \<noteq> []
                               then [json_diff rt v1 v2 (path @ ''.'' @ key)] else [])))"
    let ?r = "let diffs = concat (map ?f (set_iter rt (map fst kvs1 @ map fst kvs2)))
              in if diffs \<noteq> [] then join [CHR 0x0A] diffs else []"
    have r: "json_diff rt (PDict kvs1) (PDict kvs2) path = ?r"
      by (rule json_diff_dict)
    with PDict.prems b have "?r \<noteq> []"
      by simp
    from diffs_first [OF this] obtain key where
      key: "key \<in> set (set_iter rt (map fst kvs1 @ map fst kvs2))" "?f key \<noteq> []"
        "prefix (hd (?f key)) ?r"
      by blast
    from key(1) have dom: "key \<in> fst ` set kvs1 \<or> key \<in> fst ` set kvs2"
      by (simp add: iter)
    show ?thesis
    proof (cases "map_of kvs1 key")
      case None
      with dom obtain v2 where v2: "map_of kvs2 key = Some v2"
        by (cases "map_of kvs2 key") (auto simp add: map_of_eq_None_iff)
      from None v2 have "differ_at (PDict kvs1) (PDict kvs2) [Key key]"
        by (simp add: differ_at_def)
      moreover have "prefix (path @ render_path [Key key] @ '': '')
              (json_diff rt (PDict kvs1) (PDict kvs2) path)"
      proof -
        from None have "prefix (path @ render_path [Key key] @ '': '') (hd (?f key))"
          by (simp add: render_path_def)
        then have "prefix (path @ render_path [Key key] @ '': '') ?r"
          using key(3) by (rule prefix_order.trans)
        then show ?thesis
          unfolding r .
      qed
      ultimately show ?thesis
        unfolding b by blast
    next
      case v1: (Some v1)
      show ?thesis
      proof (cases "map_of kvs2 key")
        case None
        from v1 None have "differ_at (PDict kvs1) (PDict kvs2) [Key key]"
          by (simp add: differ_at_def)
        moreover have "prefix (path @ render_path [Key key] @ '': '')
                (json_diff rt (PDict kvs1) (PDict kvs2) path)"
        proof -
          from v1 None have "prefix (path @ render_path [Key key] @ '': '') (hd (?f key))"
            by (simp add: render_path_def)
          then have "prefix (path @ render_path [Key key] @ '': '') ?r"
            using key(3) by (rule prefix_order.trans)
          then show ?thesis
            unfolding r .
        qed
        ultimately show ?thesis
          unfolding b by blast
      next
        case v2: (Some v2)
        let ?d = "json_diff rt v1 v2 (path @ ''.'' @ key)"
        from key(2) v1 v2 have d: "?d \<noteq> []" and hd: "hd (?f key) = ?d"
          by (auto split: if_splits)
        from v1 have m: "(key, v1) \<in> set kvs1"
          by (rule map_of_SomeD)
        have "\<exists>p. differ_at v1 v2 p \<and>
            prefix ((path @ ''.'' @ key) @ render_path p @ '': '') ?d"
          by (rule PDict.IH [OF m _ d]) simp
        then obtain p where
          p: "differ_at v1 v2 p" "prefix ((path @ ''.'' @ key) @ render_path p @ '': '') ?d"
          by blast
        from p(1) v1 v2 have "differ_at (PDict kvs1) (PDict kvs2) (Key key # p)"
          by (simp add: differ_at_Key)
        moreover have "prefix (path @ render_path (Key key # p) @ '': '')
                (json_diff rt (PDict kvs1) (PDict kvs2) path)"
        proof -
          from p(2) hd have "prefix (path @ render_path (Key key # p) @ '': '') (hd (?f key))"
            by (simp add: render_path_def)
          then have "prefix (path @ render_path (Key key # p) @ '': '') ?r"
            using key(3) by (rule prefix_order.trans)
          then show ?thesis
            unfolding r .
        qed
        ultimately show ?thesis
          unfolding b by blast
      qed
    qed
  qed (simp_all add: names_type_mismatch)
qed (simp_all add: names_scalar)

lemma string_of_nat_0: "string_of_nat 0 = ''0''"
  by (subst string_of_nat.simps) (simp add: digit_char_def)

lemma string_of_nat_1: "string_of_nat (Suc 0) = ''1''"
  by (subst string_of_nat.simps) (simp add: digit_char_def)

text \<open>
  Claim C10: when iterating over a set of keys visits exactly the keys of the set, in
  whatever order, \<^verbatim>\<open>json_diff\<close> returns the empty string if and only if its two
  arguments are structurally equal JSON values (the same type at every position, the
  same key sets in mappings, the same lengths and element-wise equal sequences, equal
  scalars); in particular \<^verbatim>\<open>json_diff(x, x)\<close> is empty for every JSON value \<open>x\<close>, and a
  non-empty result starts with \<^verbatim>\<open><path><position>: \<close> for a position at which the two
  values differ.
\<close>

theorem json_diff_empty_iff_struct_eq:
  assumes "\<forall>ks. set (set_iter rt ks) = set ks"
  shows "(json_diff rt x y path = [] \<longleftrightarrow> struct_eq x y)
         \<and> json_diff rt x x path = []
         \<and> (json_diff rt x y path \<noteq> [] \<longrightarrow>
              (\<exists>p. differ_at x y p
                 \<and> prefix (path @ render_path p @ '': '') (json_diff rt x y path)))"
proof -
  from assms have iter: "\<And>ks. set (set_iter rt ks) = set ks"
    by simp
  have "json_diff rt x y path = [] \<longleftrightarrow> struct_eq x y"
    using iter by (rule json_diff_empty_iff)
  moreover have "json_diff rt x x path = []"
    using json_diff_empty_iff [OF iter, of x x path] struct_eq_refl by simp
  moreover have "\<exists>p. differ_at x y p
                 \<and> prefix (path @ render_path p @ '': '') (json_diff rt x y path)"
    if "json_diff rt x y path \<noteq> []"
    using iter that by (rule json_diff_names_path)
  ultimately show ?thesis
    by blast
qed

text \<open>
  The statement at the three documents: reordering the keys leaves the result empty, and
  the changed string is reported at \<^verbatim>\<open>.b[1]\<close>.
\<close>

theorem json_diff_empty_iff_struct_eq_witness:
  "(\<forall>ks. set (set_iter sample_runtime ks) = set ks)
   \<and> diff_left \<noteq> diff_left_reordered
   \<and> struct_eq diff_left diff_left_reordered
   \<and> json_diff sample_runtime diff_left diff_left_reordered [] = []
   \<and> json_diff sample_runtime diff_left diff_left [] = []
   \<and> \<not> struct_eq diff_left diff_right
   \<and> json_diff sample_runtime diff_left diff_right []
       = ''.b[1]: Value mismatch '' @ quote ''x'' @ '' vs '' @ quote ''y''
   \<and> differ_at diff_left diff_right [Key ''b'', Index 1]
   \<and> (\<exists>p. differ_at diff_left diff_right p
         \<and> prefix ([] @ render_path p @ '': '') (json_diff sample_runtime diff_left diff_right []))"
proof -
  have iter: "\<forall>ks. set (set_iter sample_runtime ks) = set ks"
    by (simp add: sample_runtime_def)
  have ne: "diff_left \<noteq> diff_left_reordered"
    by (simp add: diff_left_def diff_left_reordered_def)
  have eq: "struct_eq diff_left diff_left_reordered"
    by (auto simp add: diff_left_def diff_left_reordered_def struct_eq_dict struct_eq_list
        struct_eq_scalar)
  have neq: "\<not> struct_eq diff_left diff_right"
    by (auto simp add: diff_left_def diff_right_def struct_eq_dict struct_eq_list struct_eq_scalar)
  have i: "json_diff sample_runtime (PInt 1) (PInt 1) p = []" for p
    by (simp add: json_diff_scalar)
  have s: "json_diff sample_runtime (PStr ''x'') (PStr ''y'') p
       = p @ '': Value mismatch '' @ quote ''x'' @ '' vs '' @ quote ''y''" for p
    by (simp add: json_diff_scalar sample_runtime_def)
  have l: "json_diff sample_runtime (PList [PInt 1, PStr ''x'']) (PList [PInt 1, PStr ''y'']) p
       = p @ ''[1]: Value mismatch '' @ quote ''x'' @ '' vs '' @ quote ''y''" for p
    by (simp add: json_diff_list enumerate_simps i s string_of_nat_0 string_of_nat_1)
  have k: "set_iter sample_runtime (map fst [(''a'', PInt 1), (''b'', PList [PInt 1, PStr ''x''])]
             @ map fst [(''b'', PList [PInt 1, PStr ''y'']), (''a'', PInt 1)]) = [''b'', ''a'']"
    by (simp add: sample_runtime_def)
  have v: "json_diff sample_runtime diff_left diff_right []
       = ''.b[1]: Value mismatch '' @ quote ''x'' @ '' vs '' @ quote ''y''"
    unfolding diff_left_def diff_right_def json_diff_dict k
    by (simp add: i l)
  have d: "differ_at diff_left diff_right [Key ''b'', Index 1]"
    by (simp add: diff_left_def diff_right_def differ_at_def differ_here_def)
  from iter ne eq neq v d show ?thesis
    using json_diff_empty_iff_struct_eq [of sample_runtime diff_left diff_left_reordered "[]"]
      json_diff_empty_iff_struct_eq [of sample_runtime diff_left diff_right "[]"]
    by blast
qed

end
